theory Spec2Isabelle
  imports Complex_Main
begin

section \<open>JavaScript strings\<close>

text \<open>
  A JavaScript string is a sequence of UTF-16 code units.  The solver's regular
  expressions carry no \<open>u\<close> flag, so they and every string method used here
  (\<open>length\<close>, \<open>includes\<close>, \<open>split\<close>, \<open>replace\<close>) work on code units; a string is
  therefore a list of code-unit values.  \<open>js\<close> embeds an ASCII literal.
\<close>

type_synonym jsstring = "nat list"

definition js :: "string \<Rightarrow> jsstring" where
  "js s = map of_char s"

text \<open>Character sets are lists of inclusive code-unit ranges, as in a regex class.\<close>

type_synonym cset = "(nat \<times> nat) list"

fun in_cset :: "cset \<Rightarrow> nat \<Rightarrow> bool" where
  "in_cset [] c = False"
| "in_cset ((lo, hi) # rs) c = ((lo \<le> c \<and> c \<le> hi) \<or> in_cset rs c)"

definition cs_digit :: cset where
  "cs_digit = [(48, 57)]"

text \<open>\<open>\s\<close>: WhiteSpace and LineTerminator of ECMAScript; \<open>trim\<close> strips the same set.\<close>

definition cs_space :: cset where
  "cs_space = [(9, 13), (32, 32), (160, 160), (5760, 5760), (8192, 8202), (8232, 8233),
               (8239, 8239), (8287, 8287), (12288, 12288), (65279, 65279)]"

definition cs_word :: cset where
  "cs_word = [(48, 57), (65, 90), (95, 95), (97, 122)]"

definition cs_lower :: cset where
  "cs_lower = [(97, 122)]"

definition cs_alpha :: cset where
  "cs_alpha = [(65, 90), (97, 122)]"

fun starts_with :: "jsstring \<Rightarrow> jsstring \<Rightarrow> bool" where
  "starts_with s [] = True"
| "starts_with [] (k # ks) = False"
| "starts_with (c # cs) (k # ks) = (c = k \<and> starts_with cs ks)"

text \<open>\<open>s.includes(k)\<close>\<close>

fun str_includes :: "jsstring \<Rightarrow> jsstring \<Rightarrow> bool" where
  "str_includes [] k = (k = [])"
| "str_includes (c # cs) k = (starts_with (c # cs) k \<or> str_includes cs k)"

text \<open>\<open>s.trim()\<close>\<close>

definition trim :: "jsstring \<Rightarrow> jsstring" where
  "trim s = rev (dropWhile (in_cset cs_space) (rev (dropWhile (in_cset cs_space) s)))"

text \<open>\<open>s.split(c)\<close> for a one-character separator string \<open>c\<close>.\<close>

fun split_chr :: "nat \<Rightarrow> jsstring \<Rightarrow> jsstring list" where
  "split_chr d [] = [[]]"
| "split_chr d (c # cs) =
     (if c = d then [] # split_chr d cs
      else (case split_chr d cs of [] \<Rightarrow> [[c]] | p # ps \<Rightarrow> (c # p) # ps))"

text \<open>\<open>xs.join(sep)\<close>\<close>

fun join :: "jsstring \<Rightarrow> jsstring list \<Rightarrow> jsstring" where
  "join sep [] = []"
| "join sep [x] = x"
| "join sep (x # y # ys) = x @ sep @ join sep (y # ys)"

text \<open>
  \<open>s.replace(k, r)\<close> with a string pattern \<open>k\<close>: only the first occurrence is
  replaced.
\<close>

fun replace_str :: "jsstring \<Rightarrow> jsstring \<Rightarrow> jsstring \<Rightarrow> jsstring" where
  "replace_str k r [] = (if k = [] then r else [])"
| "replace_str k r (c # cs) =
     (if starts_with (c # cs) k then r @ drop (length k) (c # cs)
      else c # replace_str k r cs)"

text \<open>
  \<open>s.toLowerCase()\<close>.  On ASCII letters it adds 32; the other ASCII characters and
  the caseless symbols that occur in the solver's own tables are unchanged.  For a
  string with any other code unit the result is the platform's Unicode case
  mapping, which is not part of the program and is taken as the parameter
  \<open>ulower\<close>.
\<close>

definition ascii_lower :: "nat \<Rightarrow> nat" where
  "ascii_lower c = (if 65 \<le> c \<and> c \<le> 90 then c + 32 else c)"

definition cs_caseless :: cset where
  "cs_caseless = [(0, 127), (178, 179), (215, 215), (247, 247), (8594, 8594), (8706, 8706),
                  (8730, 8730), (8747, 8747)]"

definition toLowerCase :: "(jsstring \<Rightarrow> jsstring) \<Rightarrow> jsstring \<Rightarrow> jsstring" where
  "toLowerCase ulower s =
     (if list_all (in_cset cs_caseless) s then map ascii_lower s else ulower s)"

section \<open>Regular expressions\<close>

text \<open>
  The regular expressions of the source are kept as syntax trees and run by a
  backtracking matcher with the ECMAScript priorities: the alternatives of \<open>|\<close> from
  left to right, \<open>*\<close> greedy and refusing an empty iteration.  \<open>ms r s\<close> lists the
  states in which \<open>r\<close> can end when started in state \<open>s\<close>, best first; the match JavaScript
  reports is the head of that list.  A state holds the text already passed (reversed),
  the text still ahead and the capture groups closed so far, latest first.
\<close>

datatype re =
    Cls cset
  | NCls cset
  | Eps
  | Seq re re
  | Alt re re
  | Star re
  | Bol
  | Eol
  | Wb
  | Look re
  | Grp nat re

record mstate =
  seen :: jsstring
  rest :: jsstring
  caps :: "(nat \<times> jsstring) list"

primrec star_iter :: "nat \<Rightarrow> (mstate \<Rightarrow> mstate list) \<Rightarrow> mstate \<Rightarrow> mstate list" where
  "star_iter 0 f s = [s]"
| "star_iter (Suc n) f s =
     concat (map (\<lambda>t. if length (rest t) < length (rest s) then star_iter n f t else []) (f s))
     @ [s]"

definition at_word_boundary :: "mstate \<Rightarrow> bool" where
  "at_word_boundary s =
     ((case seen s of [] \<Rightarrow> False | c # _ \<Rightarrow> in_cset cs_word c) \<noteq>
      (case rest s of [] \<Rightarrow> False | c # _ \<Rightarrow> in_cset cs_word c))"

primrec ms :: "re \<Rightarrow> mstate \<Rightarrow> mstate list" where
  "ms (Cls cs) s = (case rest s of [] \<Rightarrow> [] | c # r \<Rightarrow>
       if in_cset cs c then [s\<lparr>seen := c # seen s, rest := r\<rparr>] else [])"
| "ms (NCls cs) s = (case rest s of [] \<Rightarrow> [] | c # r \<Rightarrow>
       if in_cset cs c then [] else [s\<lparr>seen := c # seen s, rest := r\<rparr>])"
| "ms Eps s = [s]"
| "ms (Seq a b) s = concat (map (ms b) (ms a s))"
| "ms (Alt a b) s = ms a s @ ms b s"
| "ms (Star a) s = star_iter (length (rest s)) (ms a) s"
| "ms Bol s = (if seen s = [] then [s] else [])"
| "ms Eol s = (if rest s = [] then [s] else [])"
| "ms Wb s = (if at_word_boundary s then [s] else [])"
| "ms (Look a) s = (if ms a s = [] then [] else [s])"
| "ms (Grp i a) s =
     map (\<lambda>t. t\<lparr>caps := (i, take (length (rest s) - length (rest t)) (rest s)) # caps t\<rparr>)
       (ms a s)"

text \<open>Regex syntax: literals, case-insensitive literals, \<open>+\<close>, \<open>?\<close>, sequences, alternatives.\<close>

definition chr :: "nat \<Rightarrow> re" where
  "chr c = Cls [(c, c)]"

definition chr_i :: "nat \<Rightarrow> re" where
  "chr_i c = (if 65 \<le> c \<and> c \<le> 90 then Cls [(c, c), (c + 32, c + 32)]
              else if 97 \<le> c \<and> c \<le> 122 then Cls [(c - 32, c - 32), (c, c)]
              else Cls [(c, c)])"

primrec seqs :: "re list \<Rightarrow> re" where
  "seqs [] = Eps"
| "seqs (r # rs) = Seq r (seqs rs)"

primrec alts :: "re list \<Rightarrow> re" where
  "alts [] = Cls []"
| "alts (r # rs) = Alt r (alts rs)"

definition lit :: "jsstring \<Rightarrow> re" where
  "lit s = seqs (map chr s)"

definition lit_i :: "jsstring \<Rightarrow> re" where
  "lit_i s = seqs (map chr_i s)"

definition plus :: "re \<Rightarrow> re" where
  "plus r = Seq r (Star r)"

definition opt :: "re \<Rightarrow> re" where
  "opt r = Alt r Eps"

text \<open>Running a regex at one position, and the leftmost match from a position on.\<close>

definition exec_at :: "re \<Rightarrow> jsstring \<Rightarrow> jsstring \<Rightarrow> mstate option" where
  "exec_at r p s =
     (case ms r \<lparr>seen = p, rest = s, caps = []\<rparr> of [] \<Rightarrow> None | t # _ \<Rightarrow> Some t)"

fun search_from :: "re \<Rightarrow> jsstring \<Rightarrow> jsstring \<Rightarrow> (jsstring \<times> mstate) option" where
  "search_from r p [] = (case exec_at r p [] of None \<Rightarrow> None | Some t \<Rightarrow> Some (p, t))"
| "search_from r p (c # cs) =
     (case exec_at r p (c # cs) of None \<Rightarrow> search_from r (c # p) cs | Some t \<Rightarrow> Some (p, t))"

text \<open>\<open>r.test(s)\<close>\<close>

definition re_test :: "re \<Rightarrow> jsstring \<Rightarrow> bool" where
  "re_test r s = (search_from r [] s \<noteq> None)"

text \<open>
  \<open>s.match(r)\<close> for a regex without the \<open>g\<close> flag: \<open>None\<close> is \<open>null\<close>; otherwise the
  matched text and the capture groups (\<open>grp m i\<close> is \<open>m[i]\<close>, \<open>None\<close> for \<open>undefined\<close>).
\<close>

record rmatch =
  whole :: jsstring
  groups :: "(nat \<times> jsstring) list"

definition matched_text :: "jsstring \<Rightarrow> mstate \<Rightarrow> jsstring" where
  "matched_text p t = rev (take (length (seen t) - length p) (seen t))"

definition re_match :: "re \<Rightarrow> jsstring \<Rightarrow> rmatch option" where
  "re_match r s =
     (case search_from r [] s of None \<Rightarrow> None
      | Some (p, t) \<Rightarrow> Some \<lparr>whole = matched_text p t, groups = caps t\<rparr>)"

definition grp :: "rmatch \<Rightarrow> nat \<Rightarrow> jsstring option" where
  "grp m i = map_of (groups m) i"

text \<open>
  \<open>s.replace(r, f)\<close> for a regex with the \<open>g\<close> flag: every match, left to right,
  without overlap; after an empty match the scan moves on by one code unit.  The
  replacement \<open>f\<close> receives the matched text and the groups.
\<close>

fun replace_from ::
  "re \<Rightarrow> (rmatch \<Rightarrow> jsstring) \<Rightarrow> jsstring \<Rightarrow> jsstring \<Rightarrow> jsstring" where
  "replace_from r f p [] =
     (case exec_at r p [] of None \<Rightarrow> []
      | Some t \<Rightarrow> f \<lparr>whole = [], groups = caps t\<rparr>)"
| "replace_from r f p (c # cs) =
     (case exec_at r p (c # cs) of
        None \<Rightarrow> c # replace_from r f (c # p) cs
      | Some t \<Rightarrow>
          if length (rest t) < length (c # cs)
          then f \<lparr>whole = matched_text p t, groups = caps t\<rparr> @ replace_from r f (seen t) (rest t)
          else f \<lparr>whole = [], groups = caps t\<rparr> @ c # replace_from r f (c # p) cs)"

definition re_replace_all :: "re \<Rightarrow> (rmatch \<Rightarrow> jsstring) \<Rightarrow> jsstring \<Rightarrow> jsstring" where
  "re_replace_all r f s = replace_from r f [] s"

text \<open>\<open>s.replace(r, f)\<close> for a regex without the \<open>g\<close> flag: the first match only.\<close>

definition re_replace_first :: "re \<Rightarrow> (rmatch \<Rightarrow> jsstring) \<Rightarrow> jsstring \<Rightarrow> jsstring" where
  "re_replace_first r f s =
     (case search_from r [] s of None \<Rightarrow> s
      | Some (p, t) \<Rightarrow> rev p @ f \<lparr>whole = matched_text p t, groups = caps t\<rparr> @ rest t)"

text \<open>
  \<open>s.match(r)\<close> for a regex with the \<open>g\<close> flag: the texts of all matches (\<open>null\<close>
  when the list is empty).
\<close>

fun match_all_from :: "re \<Rightarrow> jsstring \<Rightarrow> jsstring \<Rightarrow> jsstring list" where
  "match_all_from r p [] = (case exec_at r p [] of None \<Rightarrow> [] | Some t \<Rightarrow> [[]])"
| "match_all_from r p (c # cs) =
     (case exec_at r p (c # cs) of
        None \<Rightarrow> match_all_from r (c # p) cs
      | Some t \<Rightarrow>
          if length (rest t) < length (c # cs)
          then matched_text p t # match_all_from r (seen t) (rest t)
          else [] # match_all_from r (c # p) cs)"

definition re_match_all :: "re \<Rightarrow> jsstring \<Rightarrow> jsstring list option" where
  "re_match_all r s = (case match_all_from r [] s of [] \<Rightarrow> None | m # xs \<Rightarrow> Some (m # xs))"

text \<open>
  \<open>s.split(r)\<close>: the loop of the ECMAScript split.  At each position \<open>q\<close> the regex
  is tried at exactly \<open>q\<close>; a match that ends where the previous piece ended is
  skipped; otherwise the piece before \<open>q\<close> is emitted, followed by the capture
  groups listed in \<open>gs\<close>, and the scan resumes at the end of the match.  No match is
  tried at the end of the string.  (A group that took no part in the match would be
  \<open>undefined\<close>; every group of the regexes split on here always takes part.)
\<close>

definition cap_text :: "mstate \<Rightarrow> nat \<Rightarrow> jsstring" where
  "cap_text t i = (case map_of (caps t) i of None \<Rightarrow> [] | Some g \<Rightarrow> g)"

fun split_go :: "re \<Rightarrow> nat list \<Rightarrow> jsstring \<Rightarrow> jsstring \<Rightarrow> jsstring \<Rightarrow> jsstring list" where
  "split_go r gs p piece [] = [rev piece]"
| "split_go r gs p piece (c # cs) =
     (case exec_at r p (c # cs) of
        None \<Rightarrow> split_go r gs (c # p) (c # piece) cs
      | Some t \<Rightarrow>
          if length (rest t) < length (c # cs)
          then rev piece # map (cap_text t) gs @ split_go r gs (seen t) [] (rest t)
          else if piece = [] then split_go r gs (c # p) (c # piece) cs
          else rev piece # map (cap_text t) gs @ split_go r gs p [] (c # cs))"

definition re_split :: "re \<Rightarrow> nat list \<Rightarrow> jsstring \<Rightarrow> jsstring list" where
  "re_split r gs s =
     (if s = [] then (case exec_at r [] [] of None \<Rightarrow> [[]] | Some t \<Rightarrow> [])
      else split_go r gs [] [] s)"

section \<open>Classifier\<close>

text \<open>
  \<open>problemCategories\<close>, in insertion order.  The two non-ASCII keywords are the
  integral sign (U+222B) and the right arrow (U+2192).
\<close>

definition problemCategories :: "(jsstring \<times> jsstring list) list" where
  "problemCategories =
    [(js ''Algebra'', map js [''equation'', ''solve'', ''factor'', ''expand'', ''simplify'',
        ''polynomial'', ''expression'', ''variable'', ''linear'', ''quadratic'', ''cubic'',
        ''system'']),
     (js ''Calculus'', map js [''derivative'', ''differentiate'', ''integral'', ''integrate'',
        ''limit'', ''series'', ''taylor'', ''maclaurin'', ''differential'', ''antiderivative'']
        @ [[102, 39], js ''d/dx'', [8747]]),
     (js ''Geometry'', map js [''area'', ''perimeter'', ''volume'', ''radius'', ''diameter'',
        ''circle'', ''triangle'', ''rectangle'', ''square'', ''sphere'', ''cube'', ''cylinder'',
        ''cone'', ''polygon'', ''angle'', ''hypotenuse'', ''pythagorean'']),
     (js ''Trigonometry'', map js [''sin'', ''cos'', ''tan'', ''cot'', ''sec'', ''csc'',
        ''arcsin'', ''arccos'', ''arctan'', ''radian'', ''degree'', ''trigonometric'',
        ''identity'']),
     (js ''Vector'', map js [''vector'', ''dot product'', ''cross product'', ''magnitude'',
        ''unit vector'', ''position vector'', ''perpendicular'', ''parallel'', ''plane'',
        ''normal'', ''reflection''] @ [[8594]]),
     (js ''Matrix'', map js [''matrix'', ''determinant'', ''inverse'', ''transpose'',
        ''eigenvalue'', ''eigenvector'', ''rank'', ''trace'']),
     (js ''Statistics'', map js [''mean'', ''median'', ''mode'', ''standard deviation'',
        ''variance'', ''probability'', ''distribution'', ''regression'', ''correlation'']),
     (js ''Number Theory'', map js [''prime'', ''factorial'', ''gcd'', ''lcm'', ''divisor'',
        ''modulo'', ''remainder'', ''fibonacci'']),
     (js ''Complex Numbers'', map js [''complex'', ''imaginary'', ''real part'', ''conjugate'',
        ''arg'', ''modulus'', ''euler'']),
     (js ''Logarithms'', map js [''log'', ''ln'', ''logarithm'', ''exponential'', ''exp'',
        ''natural log'']),
     (js ''Sequences'', map js [''sequence'', ''series'', ''sum'', ''product'', ''arithmetic'',
        ''geometric'', ''recurrence'', ''nth term'']),
     (js ''Combinatorics'', map js [''permutation'', ''combination'', ''choose'', ''arrange'',
        ''binomial'']),
     (js ''Graphing'', map js [''graph'', ''plot'', ''y ='', ''sketch'', ''curve'',
        ''function plot'']),
     (js ''Arithmetic'', map js [''add'', ''subtract'', ''multiply'', ''divide'', ''calculate'',
        ''compute'', ''evaluate''])]"

text \<open>The sum, over the keywords found in the lowered problem, of the keyword's length.\<close>

definition keyword_score :: "(jsstring \<Rightarrow> jsstring) \<Rightarrow> jsstring \<Rightarrow> jsstring list \<Rightarrow> nat" where
  "keyword_score ulower lower kws =
     sum_list (map (\<lambda>k. if str_includes lower (toLowerCase ulower k) then length k else 0) kws)"

text \<open>\<open>scores[cat] += n\<close>\<close>

definition bump :: "jsstring \<Rightarrow> nat \<Rightarrow> (jsstring \<times> nat) list \<Rightarrow> (jsstring \<times> nat) list" where
  "bump cat n scores = map (\<lambda>(c, v). if c = cat then (c, v + n) else (c, v)) scores"

text \<open>The pattern tests of \<open>classifyProblem\<close>, all with the \<open>i\<close> flag.\<close>

definition re_cls_algebra :: re where
  "re_cls_algebra = alts [lit (js ''^2''), chr 178,
     seqs [chr_i 120, Star (Cls cs_space), chr 42, Star (Cls cs_space), chr_i 120]]"

definition re_cls_calculus :: re where
  "re_cls_calculus = alts [chr 8747, chr 8706, lit_i (js ''dx''), lit_i (js ''dy'')]"

definition re_cls_vector :: re where
  "re_cls_vector = alts [chr 8594,
     seqs [chr 40, Star (Cls cs_space), plus (Cls cs_digit), Star (Cls cs_space), chr 44,
           Star (Cls cs_space), plus (Cls cs_digit), Star (Cls cs_space), chr 44,
           Star (Cls cs_space), plus (Cls cs_digit), Star (Cls cs_space), chr 41]]"

definition re_cls_matrix :: re where
  "re_cls_matrix = alts [seqs [chr 91, Star (Cls cs_space), chr 91],
                         seqs [chr 93, Star (Cls cs_space), chr 93]]"

definition re_cls_trig :: re where
  "re_cls_trig = alts [lit_i (js ''sin''), lit_i (js ''cos''), lit_i (js ''tan'')]"

definition re_cls_log :: re where
  "re_cls_log = alts [lit_i (js ''log''),
                      seqs [lit_i (js ''ln''), Star (Cls cs_space), chr 40]]"

definition cs_arith :: cset where
  "cs_arith = cs_digit @ cs_space @
     [(43, 43), (45, 45), (42, 42), (47, 47), (40, 40), (41, 41), (46, 46), (94, 94), (37, 37)]"

definition re_cls_arith :: re where
  "re_cls_arith = seqs [Bol, Star (Cls cs_space), plus (Cls cs_arith), Star (Cls cs_space), Eol]"

text \<open>
  The final loop: the first category whose score is strictly above all earlier ones
  wins; a problem with no positive score is \<open>General Mathematics\<close>.
\<close>

fun best_category :: "nat \<Rightarrow> jsstring \<Rightarrow> (jsstring \<times> nat) list \<Rightarrow> jsstring" where
  "best_category maxScore bestCategory [] = bestCategory"
| "best_category maxScore bestCategory ((category, score) # entries) =
     (if score > maxScore then best_category score category entries
      else best_category maxScore bestCategory entries)"

definition classify_scores :: "(jsstring \<Rightarrow> jsstring) \<Rightarrow> jsstring \<Rightarrow> (jsstring \<times> nat) list" where
  "classify_scores ulower problem =
     (let lower = toLowerCase ulower problem;
          s0 = map (\<lambda>(category, keywords). (category, keyword_score ulower lower keywords))
                 problemCategories;
          s1 = (if re_test re_cls_algebra problem then bump (js ''Algebra'') 3 s0 else s0);
          s2 = (if re_test re_cls_calculus problem then bump (js ''Calculus'') 5 s1 else s1);
          s3 = (if re_test re_cls_vector problem then bump (js ''Vector'') 5 s2 else s2);
          s4 = (if re_test re_cls_matrix problem then bump (js ''Matrix'') 5 s3 else s3);
          s5 = (if re_test re_cls_trig problem then bump (js ''Trigonometry'') 3 s4 else s4);
          s6 = (if re_test re_cls_log problem then bump (js ''Logarithms'') 3 s5 else s5);
          s7 = (if re_test re_cls_arith problem then bump (js ''Arithmetic'') 10 s6 else s6)
      in s7)"

definition classifyProblem :: "(jsstring \<Rightarrow> jsstring) \<Rightarrow> jsstring \<Rightarrow> jsstring" where
  "classifyProblem ulower problem =
     best_category 0 (js ''General Mathematics'') (classify_scores ulower problem)"

section \<open>Detection predicates\<close>

text \<open>
  \<open>isTrigonometry\<close>: a trigonometric word or name, and neither \<open>area\<close> nor
  \<open>perimeter\<close> (both tests with the \<open>i\<close> flag).
\<close>

definition wordb :: "jsstring \<Rightarrow> re" where
  "wordb s = seqs [Wb, lit_i s, Wb]"

definition re_trig_words :: re where
  "re_trig_words = alts [wordb (js ''sin''), wordb (js ''cos''), wordb (js ''tan''),
     wordb (js ''cot''), wordb (js ''sec''), wordb (js ''csc''), lit_i (js ''arcsin''),
     lit_i (js ''arccos''), lit_i (js ''arctan''), lit_i (js ''trigonometric''),
     lit_i (js ''identity'')]"

definition re_area_perimeter :: re where
  "re_area_perimeter = alts [lit_i (js ''area''), lit_i (js ''perimeter'')]"

definition isTrigonometry :: "jsstring \<Rightarrow> bool" where
  "isTrigonometry problem =
     (re_test re_trig_words problem \<and> \<not> re_test re_area_perimeter problem)"

section \<open>Numbers\<close>

text \<open>
  A JavaScript number is modelled as a real number, \<open>NaN\<close> or an infinity, with exact
  arithmetic: the rounding of IEEE doubles, overflow and the sign of zero are not
  represented.  The results below are about the control flow and the text the solver
  builds; where they speak of numeric values, these are integers and simple
  fractions, on which double arithmetic is exact.
\<close>

datatype jsnum = NaN | PInf | NInf | Fin real

fun jneg :: "jsnum \<Rightarrow> jsnum" where
  "jneg NaN = NaN"
| "jneg PInf = NInf"
| "jneg NInf = PInf"
| "jneg (Fin x) = Fin (- x)"

fun jadd :: "jsnum \<Rightarrow> jsnum \<Rightarrow> jsnum" where
  "jadd (Fin x) (Fin y) = Fin (x + y)"
| "jadd NaN b = NaN"
| "jadd a NaN = NaN"
| "jadd PInf NInf = NaN"
| "jadd NInf PInf = NaN"
| "jadd PInf b = PInf"
| "jadd NInf b = NInf"
| "jadd a PInf = PInf"
| "jadd a NInf = NInf"

definition jsub :: "jsnum \<Rightarrow> jsnum \<Rightarrow> jsnum" where
  "jsub a b = jadd a (jneg b)"

text \<open>The sign of a number that is not \<open>NaN\<close>: \<open>-1\<close>, \<open>0\<close> or \<open>1\<close>.\<close>

fun jsgn :: "jsnum \<Rightarrow> int" where
  "jsgn NaN = 0"
| "jsgn PInf = 1"
| "jsgn NInf = - 1"
| "jsgn (Fin x) = (if x < 0 then - 1 else if x = 0 then 0 else 1)"

definition signed_inf :: "int \<Rightarrow> jsnum" where
  "signed_inf k = (if k = 0 then NaN else if k < 0 then NInf else PInf)"

fun jmul :: "jsnum \<Rightarrow> jsnum \<Rightarrow> jsnum" where
  "jmul (Fin x) (Fin y) = Fin (x * y)"
| "jmul NaN b = NaN"
| "jmul a NaN = NaN"
| "jmul a b = signed_inf (jsgn a * jsgn b)"

fun jdiv :: "jsnum \<Rightarrow> jsnum \<Rightarrow> jsnum" where
  "jdiv (Fin x) (Fin y) = (if y = 0 then signed_inf (jsgn (Fin x)) else Fin (x / y))"
| "jdiv NaN b = NaN"
| "jdiv a NaN = NaN"
| "jdiv (Fin x) b = Fin 0"
| "jdiv a (Fin y) = signed_inf (jsgn a * (if y < 0 then - 1 else 1))"
| "jdiv a b = NaN"

text \<open>\<open>a < b\<close>, \<open>a > b\<close> and \<open>a === b\<close>: false as soon as one side is \<open>NaN\<close>.\<close>

fun jlt :: "jsnum \<Rightarrow> jsnum \<Rightarrow> bool" where
  "jlt (Fin x) (Fin y) = (x < y)"
| "jlt NaN b = False"
| "jlt a NaN = False"
| "jlt PInf b = False"
| "jlt a NInf = False"
| "jlt a b = True"

definition jgt :: "jsnum \<Rightarrow> jsnum \<Rightarrow> bool" where
  "jgt a b = jlt b a"

fun jeq :: "jsnum \<Rightarrow> jsnum \<Rightarrow> bool" where
  "jeq NaN b = False"
| "jeq a NaN = False"
| "jeq a b = (a = b)"

definition isNaN :: "jsnum \<Rightarrow> bool" where
  "isNaN a = (a = NaN)"

text \<open>Truthiness of a number: every number but \<open>0\<close> and \<open>NaN\<close>.\<close>

definition truthy_num :: "jsnum \<Rightarrow> bool" where
  "truthy_num a = (if a = NaN then False else if a = Fin 0 then False else True)"

text \<open>\<open>a || b\<close> on numbers\<close>

definition num_or :: "jsnum \<Rightarrow> jsnum \<Rightarrow> jsnum" where
  "num_or a b = (if truthy_num a then a else b)"

fun jabs :: "jsnum \<Rightarrow> jsnum" where
  "jabs NaN = NaN"
| "jabs PInf = PInf"
| "jabs NInf = PInf"
| "jabs (Fin x) = Fin \<bar>x\<bar>"

text \<open>\<open>Math.sqrt\<close>, \<open>Math.cbrt\<close>, \<open>Math.round\<close> (halves go up), \<open>Math.acos\<close>, \<open>Math.cos\<close>\<close>

fun jsqrt :: "jsnum \<Rightarrow> jsnum" where
  "jsqrt NaN = NaN"
| "jsqrt PInf = PInf"
| "jsqrt NInf = NaN"
| "jsqrt (Fin x) = (if x < 0 then NaN else Fin (sqrt x))"

fun jcbrt :: "jsnum \<Rightarrow> jsnum" where
  "jcbrt (Fin x) = Fin (root 3 x)"
| "jcbrt a = a"

fun jround :: "jsnum \<Rightarrow> jsnum" where
  "jround (Fin x) = Fin (of_int \<lfloor>x + 1 / 2\<rfloor>)"
| "jround a = a"

fun jacos :: "jsnum \<Rightarrow> jsnum" where
  "jacos (Fin x) = (if x < - 1 then NaN else if 1 < x then NaN else Fin (arccos x))"
| "jacos a = NaN"

fun jcos :: "jsnum \<Rightarrow> jsnum" where
  "jcos (Fin x) = Fin (cos x)"
| "jcos a = NaN"

text \<open>\<open>Number.isInteger\<close>\<close>

fun isInteger :: "jsnum \<Rightarrow> bool" where
  "isInteger (Fin x) = (x = of_int \<lfloor>x\<rfloor>)"
| "isInteger a = False"

subsection \<open>Numbers and text\<close>

function show_nat :: "nat \<Rightarrow> jsstring" where
  "show_nat n = (if n < 10 then [48 + n] else show_nat (n div 10) @ [48 + n mod 10])"
  by pat_completeness auto
termination
  by (relation "measure id") auto

declare show_nat.simps [simp del]

definition show_int :: "int \<Rightarrow> jsstring" where
  "show_int i = (if i < 0 then 45 # show_nat (nat (- i)) else show_nat (nat i))"

text \<open>
  \<open>String(x)\<close> for a number: an integer below \<open>10^21\<close> in magnitude prints its decimal
  digits.  For every other finite number the text is the shortest decimal that
  reads back as the same double, an algorithm of the platform: the parameter \<open>dtoa\<close>.
\<close>

fun numToString :: "(real \<Rightarrow> jsstring) \<Rightarrow> jsnum \<Rightarrow> jsstring" where
  "numToString dtoa NaN = js ''NaN''"
| "numToString dtoa PInf = js ''Infinity''"
| "numToString dtoa NInf = js ''-Infinity''"
| "numToString dtoa (Fin x) =
     (if x = of_int \<lfloor>x\<rfloor> \<and> \<bar>x\<bar> < 10 ^ 21 then show_int \<lfloor>x\<rfloor> else dtoa x)"

text \<open>
  \<open>parseFloat\<close>: leading white space is skipped, then the longest prefix that is a
  decimal literal is read: a sign, then \<open>Infinity\<close> or digits with an optional
  fraction and an optional exponent.  \<open>NaN\<close> when there is no such prefix.
\<close>

definition digits_val :: "jsstring \<Rightarrow> nat" where
  "digits_val ds = foldl (\<lambda>a d. 10 * a + (d - 48)) 0 ds"

text \<open>The exponent part read from the text after the mantissa: its sign and size.\<close>

definition exponent_part :: "jsstring \<Rightarrow> (bool \<times> nat) option" where
  "exponent_part s =
     (case s of [] \<Rightarrow> None
      | e # r \<Rightarrow>
          if e = 101 \<or> e = 69 then
            (case r of [] \<Rightarrow> None
             | g # r' \<Rightarrow>
                 if g = 45 \<or> g = 43 then
                   (if takeWhile (in_cset cs_digit) r' = [] then None
                    else Some (g = 45, digits_val (takeWhile (in_cset cs_digit) r')))
                 else if takeWhile (in_cset cs_digit) r = [] then None
                 else Some (False, digits_val (takeWhile (in_cset cs_digit) r)))
          else None)"

definition unsigned_literal :: "jsstring \<Rightarrow> jsnum" where
  "unsigned_literal u =
     (if starts_with u (js ''Infinity'') then PInf
      else
        (let ip = takeWhile (in_cset cs_digit) u;
             r1 = dropWhile (in_cset cs_digit) u;
             fp = (case r1 of [] \<Rightarrow> [] | d # r \<Rightarrow>
                     if d = 46 then takeWhile (in_cset cs_digit) r else []);
             r2 = (case r1 of [] \<Rightarrow> [] | d # r \<Rightarrow>
                     if d = 46 then dropWhile (in_cset cs_digit) r else r1);
             mant = real (digits_val (ip @ fp)) / 10 ^ length fp
         in if ip = [] \<and> fp = [] then NaN
            else (case exponent_part r2 of
                    None \<Rightarrow> Fin mant
                  | Some (neg, e) \<Rightarrow> if neg then Fin (mant / 10 ^ e) else Fin (mant * 10 ^ e))))"

definition parseFloat :: "jsstring \<Rightarrow> jsnum" where
  "parseFloat s =
     (case dropWhile (in_cset cs_space) s of
        [] \<Rightarrow> NaN
      | c # r \<Rightarrow>
          if c = 45 then jneg (unsigned_literal r)
          else if c = 43 then unsigned_literal r
          else unsigned_literal (c # r))"

section \<open>The host\<close>

text \<open>
  What the program takes from its platform and from the libraries it calls, as
  parameters: the two text algorithms above and the computer-algebra calls.  A call
  that throws, or a library that is not loaded, is \<open>None\<close>.
  \<^item> \<open>algebrite_run e\<close>: \<open>Algebrite.run(e).toString()\<close>;
  \<^item> \<open>nerdamer_text e\<close>: \<open>nerdamer(e).text()\<close>;
  \<^item> \<open>nerdamer_solveEquations e\<close>: \<open>nerdamer.solveEquations(e, 'x')\<close>, each solution
    with the result of its \<open>toString()\<close> (\<open>None\<close> if that throws); a result that is
    not an array counts as \<open>None\<close>.
\<close>

text \<open>
  The first four strategies of the universal fallback wrap library calls
  (\<open>nerdamer\<close>, \<open>Algebrite\<close>, \<open>math.evaluate\<close>, \<open>math.simplify\<close>); they and the
  pattern strategy are tried inside \<open>try\<close> blocks and only their outcome matters: a
  throw, or a returned value.  A returned object is seen through what \<open>String\<close> makes
  of it (\<open>None\<close> if its \<open>toString\<close> throws).
\<close>

datatype jsval = VNull | VUndefined | VBool bool | VNum jsnum | VStr jsstring
  | VObj "jsstring option"

datatype outcome = Throws | Returns jsval

record host =
  dtoa :: "real \<Rightarrow> jsstring"
  ulower :: "jsstring \<Rightarrow> jsstring"
  algebrite_run :: "jsstring \<Rightarrow> jsstring option"
  nerdamer_text :: "jsstring \<Rightarrow> jsstring option"
  nerdamer_solveEquations :: "jsstring \<Rightarrow> jsstring option list option"
  tryNerdamer :: "jsstring \<Rightarrow> outcome"
  tryAlgebrite :: "jsstring \<Rightarrow> outcome"
  tryMathJs :: "jsstring \<Rightarrow> outcome"
  trySimplify :: "jsstring \<Rightarrow> outcome"
  tryPatternMatch :: "jsstring \<Rightarrow> outcome"

definition str :: "host \<Rightarrow> jsnum \<Rightarrow> jsstring" where
  "str h x = numToString (dtoa h) x"

section \<open>Steps and solution records\<close>

record step =
  description :: jsstring
  math :: jsstring

text \<open>
  A thrown value is seen only through its \<open>message\<close>: \<open>Error m\<close> is \<open>new Error(m)\<close>,
  \<open>Thrown\<close> any value without a message.
\<close>

datatype exn = Error jsstring | Thrown

fun message :: "exn \<Rightarrow> jsstring option" where
  "message (Error m) = Some m"
| "message Thrown = None"

record solution =
  number :: nat
  original :: jsstring
  type :: jsstring
  steps :: "step list"
  answer :: jsstring
  error :: "jsstring option"

text \<open>\<open>formatNumber\<close>, for an argument that is a number.\<close>

definition fractions :: "(real \<times> jsstring) list" where
  "fractions = [(1 / 2, js ''1/2''), (1 / 3, js ''1/3''), (2 / 3, js ''2/3''),
                (1 / 4, js ''1/4''), (3 / 4, js ''3/4''), (1 / 5, js ''1/5''),
                (2 / 5, js ''2/5''), (3 / 5, js ''3/5''), (4 / 5, js ''4/5'')]"

fun fraction_loop :: "jsnum \<Rightarrow> (real \<times> jsstring) list \<Rightarrow> jsstring option" where
  "fraction_loop rounded [] = None"
| "fraction_loop rounded ((val, s) # fs) =
     (if jlt (jabs (jsub rounded (Fin val))) (Fin (1 / 10000)) then Some s
      else if jlt (jabs (jadd rounded (Fin val))) (Fin (1 / 10000)) then Some (45 # s)
      else fraction_loop rounded fs)"

definition formatNumber :: "host \<Rightarrow> jsnum \<Rightarrow> jsstring" where
  "formatNumber h num =
     (if isInteger num then str h num
      else
        (let rounded = jdiv (jround (jmul num (Fin 10000))) (Fin 10000)
         in case fraction_loop rounded fractions of
              Some s \<Rightarrow> s
            | None \<Rightarrow> str h rounded))"

section \<open>Symbolic term engine: differentiation\<close>

definition ws :: re where
  "ws = Star (Cls cs_space)"

text \<open>\<open>[\-\d\.]\<close>\<close>

definition cs_coef :: cset where
  "cs_coef = [(45, 45), (48, 57), (46, 46)]"

text \<open>\<open>/name\s*\(\s*x\s*\)/i\<close>\<close>

definition re_fn_of_x :: "jsstring \<Rightarrow> re" where
  "re_fn_of_x name = seqs [lit_i name, ws, chr 40, ws, chr_i 120, ws, chr 41]"

text \<open>\<open>/^([\-\d\.]*)\s*name/\<close>\<close>

definition re_coef_before :: "jsstring \<Rightarrow> re" where
  "re_coef_before name = seqs [Bol, Grp 1 (Star (Cls cs_coef)), ws, lit name]"

definition re_d_exp :: re where
  "re_d_exp = alts [seqs [chr_i 101, ws, chr 94, ws, chr_i 120], re_fn_of_x (js ''exp'')]"

definition re_d_ln :: re where
  "re_d_ln = alts [re_fn_of_x (js ''ln''), re_fn_of_x (js ''log'')]"

definition re_d_sqrt :: re where
  "re_d_sqrt = alts [re_fn_of_x (js ''sqrt''), seqs [chr 8730, chr_i 120]]"

text \<open>\<open>/^([\-\d\.]*)x\^?([\-\d\.]*)/\<close> and \<open>/^([\-\d\.]*)x/\<close>\<close>

definition re_power :: re where
  "re_power = seqs [Bol, Grp 1 (Star (Cls cs_coef)), chr 120, opt (chr 94),
                    Grp 2 (Star (Cls cs_coef))]"

definition re_power_x :: re where
  "re_power_x = seqs [Bol, Grp 1 (Star (Cls cs_coef)), chr 120]"

text \<open>\<open>coefMatch && coefMatch[1] ? parseFloat(coefMatch[1]) || 1 : 1\<close>\<close>

definition coef_or_1 :: "rmatch option \<Rightarrow> jsnum" where
  "coef_or_1 coefMatch =
     (case coefMatch of None \<Rightarrow> Fin 1
      | Some m \<Rightarrow> (case grp m 1 of None \<Rightarrow> Fin 1
          | Some g \<Rightarrow> if g = [] then Fin 1 else num_or (parseFloat g) (Fin 1)))"

text \<open>
  \<open>match[1] === '' || match[1] === '+' ? 1 : (match[1] === '-' ? -1 : parseFloat(match[1]))\<close>
  and \<open>match[2] ? parseFloat(match[2]) : 1\<close>
\<close>

definition power_coef :: "rmatch \<Rightarrow> jsnum" where
  "power_coef m =
     (case grp m 1 of None \<Rightarrow> NaN
      | Some g \<Rightarrow> if g = [] \<or> g = js ''+'' then Fin 1
                  else if g = js ''-'' then Fin (- 1) else parseFloat g)"

definition power_exp :: "rmatch \<Rightarrow> jsnum" where
  "power_exp m =
     (case grp m 2 of None \<Rightarrow> Fin 1
      | Some g \<Rightarrow> if g = [] then Fin 1 else parseFloat g)"

text \<open>
  \<open>differentiateTerm(term, steps)\<close> returns the derivative's text and appends to the
  step log, which the model returns as the second component.
\<close>

definition push :: "step list \<Rightarrow> jsstring \<Rightarrow> jsstring \<Rightarrow> step list" where
  "push trail d m = trail @ [\<lparr>description = d, math = m\<rparr>]"

definition differentiate_power :: "host \<Rightarrow> jsstring \<Rightarrow> rmatch \<Rightarrow> step list \<Rightarrow> jsstring \<times> step list" where
  "differentiate_power h term m trail =
     (let coef = power_coef m;
          expo = power_exp m;
          newCoef = jmul coef expo;
          newExp = jsub expo (Fin 1);
          trail' = push trail
            (js ''Power rule: d/dx['' @ term @ js ''] = '' @ str h coef @ [32, 215, 32] @ str h expo
               @ [32, 215, 32] @ js ''x^('' @ str h expo @ js ''-1)'')
            (js ''= '' @ str h newCoef @ js ''x^'' @ str h newExp)
      in if jeq newExp (Fin 0) then (str h newCoef, trail')
         else if jeq newExp (Fin 1) then (str h newCoef @ js ''x'', trail')
         else if jeq newExp (Fin (- 1)) then (str h newCoef @ js ''/x'', trail')
         else if jeq newExp (Fin (1 / 2)) then (str h newCoef @ [8730, 120], trail')
         else (str h newCoef @ js ''x^'' @ str h newExp, trail'))"

definition differentiateTerm :: "host \<Rightarrow> jsstring \<Rightarrow> step list \<Rightarrow> jsstring \<times> step list" where
  "differentiateTerm h term trail =
     (if \<not> str_includes term (js ''x'') then
        (js ''0'', push trail (js ''Constant rule: derivative of '' @ term @ js '' is 0'')
                              (js ''d/dx['' @ term @ js ''] = 0''))
      else if re_test (re_fn_of_x (js ''sin'')) term then
        (let coef = coef_or_1 (re_match (re_coef_before (js ''sin'')) term)
         in (if jeq coef (Fin 1) then js ''cos(x)'' else str h coef @ js ''cos(x)'',
             push trail (js ''d/dx['' @ term @ js '']'') (js ''= '' @ str h coef @ js ''cos(x)'')))
      else if re_test (re_fn_of_x (js ''cos'')) term then
        (let coef = coef_or_1 (re_match (re_coef_before (js ''cos'')) term)
         in (str h (jneg coef) @ js ''sin(x)'',
             push trail (js ''d/dx['' @ term @ js '']'')
                      (js ''= '' @ str h (jneg coef) @ js ''sin(x)'')))
      else if re_test (re_fn_of_x (js ''tan'')) term then
        (let coef = coef_or_1 (re_match (re_coef_before (js ''tan'')) term)
         in (if jeq coef (Fin 1) then js ''sec'' @ [178] @ js ''(x)''
             else str h coef @ js ''sec'' @ [178] @ js ''(x)'',
             push trail (js ''d/dx['' @ term @ js '']'')
                      (js ''= '' @ str h coef @ js ''sec'' @ [178] @ js ''(x)'')))
      else if re_test re_d_exp term then
        (term, push trail (js ''d/dx['' @ term @ js '']'')
                        (js ''= '' @ term @ js '' (exponential rule)''))
      else if re_test re_d_ln term then
        (let coef = coef_or_1 (re_match (re_coef_before (js ''l'')) term)
         in (if jeq coef (Fin 1) then js ''1/x'' else str h coef @ js ''/x'',
             push trail (js ''d/dx['' @ term @ js '']'') (js ''= '' @ str h coef @ js ''/x'')))
      else if re_test re_d_sqrt term then
        (js ''1/(2'' @ [8730] @ js ''x)'',
         push trail (js ''d/dx['' @ term @ js '']'') (js ''= 1/(2'' @ [8730] @ js ''x)''))
      else
        (case re_match re_power term of
           Some m \<Rightarrow> differentiate_power h term m trail
         | None \<Rightarrow>
             (case re_match re_power_x term of
                Some m \<Rightarrow> differentiate_power h term m trail
              | None \<Rightarrow> (term, trail))))"

section \<open>Symbolic term engine: integration\<close>

text \<open>\<open>/sin|cos|tan|sec|csc|cot|ln|e\^|log/i\<close>\<close>

definition re_i_functions :: re where
  "re_i_functions = alts [lit_i (js ''sin''), lit_i (js ''cos''), lit_i (js ''tan''),
     lit_i (js ''sec''), lit_i (js ''csc''), lit_i (js ''cot''), lit_i (js ''ln''),
     lit_i (js ''e^''), lit_i (js ''log'')]"

text \<open>\<open>/^-?\d*\*?name\(?x\)?$/i\<close> and \<open>/^(-?\d*)\*?name/i\<close>\<close>

definition re_i_scaled :: "jsstring \<Rightarrow> re" where
  "re_i_scaled name = seqs [Bol, opt (chr 45), Star (Cls cs_digit), opt (chr 42), lit_i name,
                            opt (chr 40), chr_i 120, opt (chr 41), Eol]"

definition re_i_coef :: "jsstring \<Rightarrow> re" where
  "re_i_coef name = seqs [Bol, Grp 1 (Seq (opt (chr 45)) (Star (Cls cs_digit))), opt (chr 42),
                          lit_i name]"

text \<open>\<open>/sec\^?2?\(?x\)?/i\<close> and \<open>/csc\^?2?\(?x\)?/i\<close>\<close>

definition re_i_squared :: "jsstring \<Rightarrow> re" where
  "re_i_squared name = seqs [lit_i name, opt (chr 94), opt (chr 50), opt (chr 40), chr_i 120,
                             opt (chr 41)]"

text \<open>\<open>/sec\(?x\)?[\s\*]*tan\(?x\)?/i\<close> and \<open>/csc\(?x\)?[\s\*]*cot\(?x\)?/i\<close>\<close>

definition re_i_product :: "jsstring \<Rightarrow> jsstring \<Rightarrow> re" where
  "re_i_product f g = seqs [lit_i f, opt (chr 40), chr_i 120, opt (chr 41),
                            Star (Cls (cs_space @ [(42, 42)])),
                            lit_i g, opt (chr 40), chr_i 120, opt (chr 41)]"

text \<open>\<open>/^-?\d*\*?e\^x$/i\<close> and \<open>/^(-?\d*)\*?e/i\<close>\<close>

definition re_i_ex :: re where
  "re_i_ex = seqs [Bol, opt (chr 45), Star (Cls cs_digit), opt (chr 42), lit_i (js ''e^x''), Eol]"

text \<open>\<open>/e\^\(?(-?\d+)x\)?/i\<close>\<close>

definition re_i_eax :: re where
  "re_i_eax = seqs [lit_i (js ''e^''), opt (chr 40),
                    Grp 1 (Seq (opt (chr 45)) (plus (Cls cs_digit))), chr_i 120, opt (chr 41)]"

text \<open>\<open>/^1\/x$|^x\^-1$/i\<close>\<close>

definition re_i_reciprocal :: re where
  "re_i_reciprocal = alts [seqs [Bol, lit_i (js ''1/x''), Eol], seqs [Bol, lit_i (js ''x^-1''), Eol]]"

text \<open>\<open>/^ln\(?x\)?$/i\<close>\<close>

definition re_i_ln :: re where
  "re_i_ln = seqs [Bol, lit_i (js ''ln''), opt (chr 40), chr_i 120, opt (chr 41), Eol]"

text \<open>\<open>/1\/\(1\+x\^?2\)|1\/\(1\s*\+\s*x\*\*2\)/i\<close>\<close>

definition re_i_arctan :: re where
  "re_i_arctan = alts [seqs [lit_i (js ''1/(1+x''), opt (chr 94), lit (js ''2)'')],
                       seqs [lit (js ''1/(1''), ws, chr 43, ws, lit_i (js ''x**2)'')]]"

text \<open>\<open>/1\/sqrt\(1-x\^?2\)|1\/\<surd>\(1-x\^?2\)/i\<close>, the second with the root sign U+221A\<close>

definition re_i_arcsin :: re where
  "re_i_arcsin = alts [seqs [lit_i (js ''1/sqrt(1-x''), opt (chr 94), lit (js ''2)'')],
                       seqs [lit (js ''1/''), chr 8730, lit_i (js ''(1-x''), opt (chr 94),
                             lit (js ''2)'')]]"

text \<open>\<open>coefMatch && coefMatch[1] ? (coefMatch[1] === '-' ? -1 : parseFloat(coefMatch[1])) : 1\<close>\<close>

definition coef_signed :: "rmatch option \<Rightarrow> jsnum" where
  "coef_signed coefMatch =
     (case coefMatch of None \<Rightarrow> Fin 1
      | Some m \<Rightarrow> (case grp m 1 of None \<Rightarrow> Fin 1
          | Some g \<Rightarrow> if g = [] then Fin 1
                      else if g = js ''-'' then Fin (- 1) else parseFloat g))"

text \<open>The power rule of \<open>integrateTerm\<close>, with its special case for the exponent \<open>-1\<close>.\<close>

definition integrate_power :: "host \<Rightarrow> jsstring \<Rightarrow> rmatch \<Rightarrow> step list \<Rightarrow> jsstring \<times> step list" where
  "integrate_power h cleanTerm m trail =
     (let coef = power_coef m;
          expo = power_exp m
      in if jeq expo (Fin (- 1)) then
           (let result = (if jeq coef (Fin 1) then js ''ln|x|'' else str h coef @ js ''ln|x|'')
            in (result, push trail ([8747] @ cleanTerm @ js '' dx (special case n = -1)'')
                                 (js ''= '' @ result)))
         else
           (let newExp = jadd expo (Fin 1);
                newCoef = jdiv coef newExp;
                trail' = push trail
                  (js ''Power rule: '' @ [8747] @ cleanTerm @ js '' dx = '' @ str h coef
                     @ [32, 215, 32] @ js ''x^('' @ str h expo @ js ''+1)/('' @ str h expo @ js ''+1)'')
                  (js ''= '' @ formatNumber h newCoef @ js ''x^'' @ str h newExp)
            in if jeq newExp (Fin 1) then (formatNumber h newCoef @ js ''x'', trail')
               else if jeq newExp (Fin 0) then (formatNumber h newCoef, trail')
               else (formatNumber h newCoef @ js ''x^'' @ str h newExp, trail')))"

text \<open>The two library calls tried last, and the final placeholder.\<close>

definition integrate_external :: "host \<Rightarrow> jsstring \<Rightarrow> step list \<Rightarrow> jsstring \<times> step list" where
  "integrate_external h cleanTerm trail =
     (let a = algebrite_run h (js ''integral('' @ cleanTerm @ js '', x)'');
          n = nerdamer_text h (js ''integrate('' @ cleanTerm @ js '', x)'');
          a_ok = (case a of None \<Rightarrow> False
                  | Some r \<Rightarrow> if r = [] then False else if r = js ''undefined'' then False
                              else if str_includes r (js ''integral'') then False else True);
          n_ok = (case n of None \<Rightarrow> False
                  | Some r \<Rightarrow> if r = [] then False else if r = cleanTerm then False else True)
      in if a_ok then (the a, push trail ([8747] @ cleanTerm @ js '' dx'') (js ''= '' @ the a))
         else if n_ok then (the n, push trail ([8747] @ cleanTerm @ js '' dx'') (js ''= '' @ the n))
         else (cleanTerm @ js ''x'', trail))"

text \<open>
  The rules of \<open>integrateTerm\<close> that come before the power rule, in the source's
  order; \<open>None\<close> when none of them returns.
\<close>

definition integrate_special :: "host \<Rightarrow> jsstring \<Rightarrow> step list \<Rightarrow> (jsstring \<times> step list) option" where
  "integrate_special h cleanTerm trail =
     (let head = [8747] @ cleanTerm @ js '' dx'';
          c = parseFloat cleanTerm
      in if \<not> str_includes cleanTerm (js ''x'') \<and> \<not> re_test re_i_functions cleanTerm
            \<and> \<not> isNaN c then
           Some (str h c @ js ''x'',
            push trail (js ''Constant rule: '' @ [8747] @ str h c @ js '' dx = '' @ str h c @ js ''x'')
                     ([8747] @ str h c @ js '' dx = '' @ str h c @ js ''x''))
         else if re_test (re_i_scaled (js ''sin'')) cleanTerm then
           (let coef = coef_signed (re_match (re_i_coef (js ''sin'')) cleanTerm);
                result = (if jeq coef (Fin 1) then js ''-cos(x)''
                          else if jeq coef (Fin (- 1)) then js ''cos(x)''
                          else str h (jneg coef) @ js ''cos(x)'')
            in Some (result, push trail head (js ''= '' @ result)))
         else if re_test (re_i_scaled (js ''cos'')) cleanTerm then
           (let coef = coef_signed (re_match (re_i_coef (js ''cos'')) cleanTerm);
                result = (if jeq coef (Fin 1) then js ''sin(x)'' else str h coef @ js ''sin(x)'')
            in Some (result, push trail head (js ''= '' @ result)))
         else if re_test (re_i_squared (js ''sec'')) cleanTerm then
           Some (js ''tan(x)'', push trail head (js ''= tan(x)''))
         else if re_test (re_i_squared (js ''csc'')) cleanTerm then
           Some (js ''-cot(x)'', push trail head (js ''= -cot(x)''))
         else if re_test (re_i_product (js ''sec'') (js ''tan'')) cleanTerm then
           Some (js ''sec(x)'', push trail head (js ''= sec(x)''))
         else if re_test (re_i_product (js ''csc'') (js ''cot'')) cleanTerm then
           Some (js ''-csc(x)'', push trail head (js ''= -csc(x)''))
         else if re_test re_i_ex cleanTerm then
           (let coef = coef_signed (re_match (re_i_coef (js ''e'')) cleanTerm);
                result = (if jeq coef (Fin 1) then js ''e^x'' else str h coef @ js ''e^x'')
            in Some (result, push trail head (js ''= '' @ result)))
         else if re_test re_i_eax cleanTerm then
           (let a = (case re_match re_i_eax cleanTerm of None \<Rightarrow> NaN
                     | Some m \<Rightarrow> (case grp m 1 of None \<Rightarrow> NaN | Some g \<Rightarrow> parseFloat g));
                result = js ''(1/'' @ str h a @ js '')e^('' @ str h a @ js ''x)'';
                out = formatNumber h (jdiv (Fin 1) a) @ js ''e^('' @ str h a @ js ''x)''
            in Some (out, push trail head (js ''= '' @ result @ js '' = '' @ out)))
         else if re_test re_i_reciprocal cleanTerm then
           Some (js ''ln|x|'', push trail head (js ''= ln|x|''))
         else if re_test re_i_ln cleanTerm then
           Some (js ''x'' @ [183] @ js ''ln(x) - x'',
            push trail (js ''Integration by parts: '' @ [8747] @ js ''ln(x) dx'')
                     (js ''= x'' @ [183] @ js ''ln(x) - x''))
         else if re_test re_i_arctan cleanTerm then
           Some (js ''arctan(x)'', push trail head (js ''= arctan(x)''))
         else if re_test re_i_arcsin cleanTerm then
           Some (js ''arcsin(x)'', push trail head (js ''= arcsin(x)''))
         else None)"

definition integrateTerm :: "host \<Rightarrow> jsstring \<Rightarrow> step list \<Rightarrow> jsstring \<times> step list" where
  "integrateTerm h term trail =
     (let cleanTerm = trim term
      in case integrate_special h cleanTerm trail of
           Some r \<Rightarrow> r
         | None \<Rightarrow>
             (case re_match re_power cleanTerm of
                Some m \<Rightarrow> integrate_power h cleanTerm m trail
              | None \<Rightarrow> integrate_external h cleanTerm trail))"

section \<open>Algebraic solvers\<close>

subsection \<open>Linear equations\<close>

text \<open>\<open>expr.replace(/\s/g, '')\<close> and \<open>expr.replace(/\-/g, '+-')\<close>\<close>

definition strip_spaces :: "jsstring \<Rightarrow> jsstring" where
  "strip_spaces s = re_replace_all (Cls cs_space) (\<lambda>m. []) s"

definition minus_to_plus_minus :: "jsstring \<Rightarrow> jsstring" where
  "minus_to_plus_minus s = re_replace_all (chr 45) (\<lambda>m. js ''+-'') s"

text \<open>\<open>coef === '' || coef === '+' ? 1 : (coef === '-' ? -1 : parseFloat(coef))\<close>\<close>

definition coef_value :: "jsstring \<Rightarrow> jsnum" where
  "coef_value coef = (if coef = [] \<or> coef = js ''+'' then Fin 1
                      else if coef = js ''-'' then Fin (- 1) else parseFloat coef)"

record linear_parts =
  coefficient :: jsnum
  const_term :: jsnum

fun linear_terms :: "jsstring \<Rightarrow> jsstring list \<Rightarrow> linear_parts \<Rightarrow> linear_parts" where
  "linear_terms variable [] acc = acc"
| "linear_terms variable (term # terms) acc =
     (if str_includes term variable then
        linear_terms variable terms
          (acc\<lparr>coefficient :=
             jadd (coefficient acc)
               (coef_value (replace_str (js ''*'') [] (replace_str variable [] term)))\<rparr>)
      else
        linear_terms variable terms
          (acc\<lparr>const_term := jadd (const_term acc) (num_or (parseFloat term) (Fin 0))\<rparr>))"

definition parseLinearExpression :: "jsstring \<Rightarrow> jsstring \<Rightarrow> linear_parts" where
  "parseLinearExpression expr variable =
     linear_terms variable
       (filter (\<lambda>t. t \<noteq> []) (split_chr 43 (minus_to_plus_minus (strip_spaces expr))))
       \<lparr>coefficient = Fin 0, const_term = Fin 0\<rparr>"

text \<open>
  \<open>solveLinearManually\<close>: the result, or the error it throws, together with the step
  log as it stands at that moment (the first step is pushed before the test on \<open>a\<close>).
\<close>

definition linear_a :: "jsstring \<Rightarrow> jsstring \<Rightarrow> jsstring \<Rightarrow> jsnum" where
  "linear_a left right variable =
     jsub (jadd (Fin 0) (coefficient (parseLinearExpression left variable)))
          (coefficient (parseLinearExpression right variable))"

definition linear_b :: "jsstring \<Rightarrow> jsstring \<Rightarrow> jsstring \<Rightarrow> jsnum" where
  "linear_b left right variable =
     jsub (jadd (Fin 0) (const_term (parseLinearExpression left variable)))
          (const_term (parseLinearExpression right variable))"

definition solveLinearManually ::
  "host \<Rightarrow> jsstring \<Rightarrow> jsstring \<Rightarrow> jsstring \<Rightarrow> step list \<Rightarrow> (exn + jsnum) \<times> step list" where
  "solveLinearManually h left right variable trail =
     (let a = linear_a left right variable;
          b = linear_b left right variable;
          c = jneg b;
          trail1 = push trail
            (js ''Collect all '' @ variable @ js '' terms on one side and constants on the other'')
            (str h a @ variable @ js '' = '' @ str h c)
      in if jeq a (Fin 0) then
           (Inl (Error (js ''No variable found or coefficient is zero'')), trail1)
         else
           (let result = jdiv c a
            in (Inr result,
                push trail1 (js ''Divide both sides by '' @ str h a)
                  (variable @ js '' = '' @ str h c @ [32, 247, 32] @ str h a @ js '' = ''
                     @ formatNumber h result))))"

text \<open>
  \<open>solveLinearEquation\<close>.  \<open>problem.split('=')\<close> always has a first piece; the
  second is missing when there is no \<open>=\<close>.  Whatever \<open>solveLinearManually\<close> throws is
  thrown again under a longer message.
\<close>

definition first_letter :: "jsstring \<Rightarrow> jsstring" where
  "first_letter s = (case re_match (Cls cs_alpha) s of None \<Rightarrow> js ''x'' | Some m \<Rightarrow> whole m)"

definition leftSide :: "jsstring \<Rightarrow> jsstring" where
  "leftSide problem = hd (map trim (split_chr 61 problem))"

definition rightSide :: "jsstring \<Rightarrow> jsstring" where
  "rightSide problem = (case tl (map trim (split_chr 61 problem)) of [] \<Rightarrow> [] | r # _ \<Rightarrow> r)"

definition solveLinearEquation :: "host \<Rightarrow> jsstring \<Rightarrow> nat \<Rightarrow> exn + solution" where
  "solveLinearEquation h problem no =
     (let trail0 = push [] (js ''Original equation'') problem
      in if rightSide problem = [] then Inl (Error (js ''Invalid equation format''))
         else
           (let trail1 = push trail0 (js ''Identify left and right sides of the equation'')
                           (js ''Left: '' @ leftSide problem @ js '', Right: '' @ rightSide problem);
                variable = first_letter problem
            in case solveLinearManually h (leftSide problem) (rightSide problem) variable trail1 of
                 (Inl e, trail2) \<Rightarrow>
                   Inl (Error (js ''Could not solve linear equation: ''
                          @ (case message e of None \<Rightarrow> js ''undefined'' | Some m \<Rightarrow> m)))
               | (Inr result, trail2) \<Rightarrow>
                   Inr \<lparr>number = no, original = problem, type = js ''Linear Equation'',
                        steps = trail2, answer = variable @ js '' = '' @ formatNumber h result,
                        error = None\<rparr>))"

subsection \<open>Quadratic equations\<close>

text \<open>\<open>s.replace(/x/g, '^2')\<close> for \<open>x\<close> the superscript two (U+00B2), and likewise
  \<open>'^3'\<close> for the superscript three (U+00B3)\<close>

definition sup2 :: "jsstring \<Rightarrow> jsstring" where
  "sup2 s = re_replace_all (chr 178) (\<lambda>m. js ''^2'') s"

definition sup3 :: "jsstring \<Rightarrow> jsstring" where
  "sup3 s = re_replace_all (chr 179) (\<lambda>m. js ''^3'') s"

text \<open>
  \<open>parseQuadraticCoefficients(left, right, variable)\<close>; \<open>right\<close> is \<open>None\<close> when the
  equation had no \<open>=\<close>.  The quadratic term's coefficient is what is left of the term
  after deleting every match of the variable followed by an optional \<open>^\<close> and an
  optional \<open>2\<close>, then the first \<open>*\<close>.
\<close>

record quad_coeffs =
  qa :: jsnum
  qb :: jsnum
  qc :: jsnum

fun quad_terms :: "jsstring \<Rightarrow> jsstring list \<Rightarrow> quad_coeffs \<Rightarrow> quad_coeffs" where
  "quad_terms variable [] acc = acc"
| "quad_terms variable (term # terms) acc =
     (if str_includes term (js ''^2'') \<or> str_includes term [178] then
        quad_terms variable terms
          (acc\<lparr>qa := jadd (qa acc)
             (coef_value (replace_str (js ''*'') []
                (re_replace_all (seqs [lit variable, opt (chr 94), opt (chr 50)]) (\<lambda>m. []) term)))\<rparr>)
      else if str_includes term variable then
        quad_terms variable terms
          (acc\<lparr>qb := jadd (qb acc)
             (coef_value (replace_str (js ''*'') [] (replace_str variable [] term)))\<rparr>)
      else
        quad_terms variable terms
          (acc\<lparr>qc := jadd (qc acc) (num_or (parseFloat term) (Fin 0))\<rparr>))"

definition parseQuadraticCoefficients :: "jsstring \<Rightarrow> jsstring option \<Rightarrow> jsstring \<Rightarrow> quad_coeffs" where
  "parseQuadraticCoefficients left right variable =
     (let combined = strip_spaces
            (left @ js ''-('' @ (case right of None \<Rightarrow> js ''0''
                                 | Some r \<Rightarrow> if r = [] then js ''0'' else r) @ js '')'');
          normalized = re_replace_all (lit (js ''++'')) (\<lambda>m. js ''+'')
                         (minus_to_plus_minus combined)
      in quad_terms variable (filter (\<lambda>t. t \<noteq> []) (split_chr 43 normalized))
           \<lparr>qa = Fin 0, qb = Fin 0, qc = Fin 0\<rparr>)"

text \<open>Subscripts: \<open>s1\<close>, \<open>s2\<close>, \<open>s3\<close> are U+2081, U+2082, U+2083.\<close>

definition sub1 :: jsstring where "sub1 = [8321]"
definition sub2 :: jsstring where "sub2 = [8322]"
definition sub3 :: jsstring where "sub3 = [8323]"

text \<open>
  The library path shared by the quadratic and the cubic solver:
  \<open>solutions.map((s, i) => `x${label i} = ${s.toString()}`)\<close>; \<open>None\<close> when a
  \<open>toString\<close> throws.
\<close>

fun format_solutions :: "(nat \<Rightarrow> jsstring) \<Rightarrow> nat \<Rightarrow> jsstring option list \<Rightarrow> jsstring list option" where
  "format_solutions label i [] = Some []"
| "format_solutions label i (None # ss) = None"
| "format_solutions label i (Some t # ss) =
     (case format_solutions label (Suc i) ss of None \<Rightarrow> None
      | Some fs \<Rightarrow> Some ((js ''x'' @ label i @ js '' = '' @ t) # fs))"

text \<open>\<open>solutions.length > 1 ? '\<^sub>1\<^sub>2'[i] : ''\<close>, an index past the two characters giving \<open>undefined\<close>\<close>

definition quad_label :: "nat \<Rightarrow> nat \<Rightarrow> jsstring" where
  "quad_label n i = (if n > 1 then (if i = 0 then sub1 else if i = 1 then sub2 else js ''undefined'')
                     else [])"

text \<open>
  The manual path of \<open>solveQuadratic\<close>, entered with the steps pushed so far: the
  equation without spaces, its first letter as the variable, the two sides of the
  first \<open>=\<close>, the coefficients, and the three steps that end with the discriminant.
\<close>

definition discriminant_of :: "quad_coeffs \<Rightarrow> jsnum" where
  "discriminant_of k = jsub (jmul (qb k) (qb k)) (jmul (jmul (Fin 4) (qa k)) (qc k))"

definition quadratic_equation :: "jsstring \<Rightarrow> jsstring" where
  "quadratic_equation problem = strip_spaces (sup2 problem)"

definition quadratic_variable :: "jsstring \<Rightarrow> jsstring" where
  "quadratic_variable problem = first_letter (quadratic_equation problem)"

definition quadratic_left :: "jsstring \<Rightarrow> jsstring" where
  "quadratic_left problem = hd (split_chr 61 (quadratic_equation problem))"

definition quadratic_right :: "jsstring \<Rightarrow> jsstring option" where
  "quadratic_right problem =
     (case tl (split_chr 61 (quadratic_equation problem)) of [] \<Rightarrow> None | r # _ \<Rightarrow> Some r)"

definition quadratic_coeffs :: "jsstring \<Rightarrow> quad_coeffs" where
  "quadratic_coeffs problem =
     parseQuadraticCoefficients (quadratic_left problem) (quadratic_right problem)
       (quadratic_variable problem)"

definition discriminant_step :: "host \<Rightarrow> quad_coeffs \<Rightarrow> step" where
  "discriminant_step h k =
     \<lparr>description = js ''Calculate discriminant: b'' @ [178] @ js '' - 4ac'',
      math = [916] @ js '' = ('' @ str h (qb k) @ js '')'' @ [178] @ js '' - 4('' @ str h (qa k)
               @ js '')('' @ str h (qc k) @ js '') = '' @ str h (jmul (qb k) (qb k)) @ js '' - ''
               @ str h (jmul (jmul (Fin 4) (qa k)) (qc k)) @ js '' = ''
               @ str h (discriminant_of k)\<rparr>"

definition quadratic_setup :: "host \<Rightarrow> jsstring \<Rightarrow> step list \<Rightarrow> step list" where
  "quadratic_setup h problem trail0 =
     (let k = quadratic_coeffs problem;
          trail1 = push trail0 (js ''Rewrite in standard form ax'' @ [178] @ js '' + bx + c = 0'')
                     (quadratic_left problem @ js '' - (''
                        @ (case quadratic_right problem of None \<Rightarrow> js ''undefined'' | Some r \<Rightarrow> r)
                        @ js '') = 0'');
          trail2 = push trail1 (js ''Identify coefficients'')
                     (js ''a = '' @ str h (qa k) @ js '', b = '' @ str h (qb k) @ js '', c = ''
                        @ str h (qc k))
      in trail2 @ [discriminant_step h k])"

definition quadratic_manual :: "host \<Rightarrow> jsstring \<Rightarrow> nat \<Rightarrow> step list \<Rightarrow> solution" where
  "quadratic_manual h problem no trail0 =
     (let variable = quadratic_variable problem;
          k = quadratic_coeffs problem;
          a = qa k; b = qb k;
          discriminant = discriminant_of k;
          trail3 = quadratic_setup h problem trail0
      in if jgt discriminant (Fin 0) then
           (let x1 = jdiv (jadd (jneg b) (jsqrt discriminant)) (jmul (Fin 2) a);
                x2 = jdiv (jsub (jneg b) (jsqrt discriminant)) (jmul (Fin 2) a);
                trail4 = push trail3 (js ''Discriminant > 0, so there are two real solutions'')
                           (variable @ js '' = (-b '' @ [177, 32, 8730, 916] @ js '') / 2a'');
                trail5 = push trail4 (js ''Apply the quadratic formula'')
                           (variable @ sub1 @ js '' = ('' @ str h (jneg b) @ js '' + '' @ [8730]
                              @ str h discriminant @ js '') / '' @ str h (jmul (Fin 2) a)
                              @ js '' = '' @ formatNumber h x1);
                trail6 = push trail5 (js ''Calculate second solution'')
                           (variable @ sub2 @ js '' = ('' @ str h (jneg b) @ js '' - '' @ [8730]
                              @ str h discriminant @ js '') / '' @ str h (jmul (Fin 2) a)
                              @ js '' = '' @ formatNumber h x2)
            in \<lparr>number = no, original = problem, type = js ''Quadratic Equation'',
                 steps = trail6,
                 answer = variable @ sub1 @ js '' = '' @ formatNumber h x1 @ js '', '' @ variable
                          @ sub2 @ js '' = '' @ formatNumber h x2,
                 error = None\<rparr>)
         else if jeq discriminant (Fin 0) then
           (let x = jdiv (jneg b) (jmul (Fin 2) a);
                trail4 = push trail3 (js ''Discriminant = 0, so there is one repeated solution'')
                           (variable @ js '' = -b / 2a = '' @ str h (jneg b) @ js '' / ''
                              @ str h (jmul (Fin 2) a) @ js '' = '' @ formatNumber h x)
            in \<lparr>number = no, original = problem, type = js ''Quadratic Equation'',
                 steps = trail4, answer = variable @ js '' = '' @ formatNumber h x,
                 error = None\<rparr>)
         else
           (let realPart = jdiv (jneg b) (jmul (Fin 2) a);
                imagPart = jdiv (jsqrt (jneg discriminant)) (jmul (Fin 2) a);
                trail4 = push trail3 (js ''Discriminant < 0, so solutions are complex numbers'')
                           (variable @ js '' = (-b '' @ [177] @ js '' i'' @ [8730] @ js ''|''
                              @ [916] @ js ''|) / 2a'');
                trail5 = push trail4 (js ''Calculate complex solutions'')
                           (variable @ js '' = '' @ formatNumber h realPart @ [32, 177, 32]
                              @ formatNumber h imagPart @ js ''i'')
            in \<lparr>number = no, original = problem, type = js ''Quadratic Equation'',
                 steps = trail5,
                 answer = variable @ js '' = '' @ formatNumber h realPart @ [32, 177, 32]
                          @ formatNumber h imagPart @ js ''i'',
                 error = None\<rparr>))"

text \<open>
  \<open>solveQuadratic\<close>: the library first; when it is missing, throws, or finds
  nothing, the manual path.  If a solution's \<open>toString\<close> throws, the step pushed just
  before stays in the log.
\<close>

definition solveQuadratic :: "host \<Rightarrow> jsstring \<Rightarrow> nat \<Rightarrow> solution" where
  "solveQuadratic h problem no =
     (let trail0 = push [] (js ''Original equation'') problem;
          equation = sup2 problem
      in case nerdamer_solveEquations h equation of
           None \<Rightarrow> quadratic_manual h problem no trail0
         | Some solutions \<Rightarrow>
             if solutions = [] then quadratic_manual h problem no trail0
             else
               (let trail1 = push trail0 (js ''Solve using algebraic methods'')
                               (js ''Solving '' @ equation)
                in case format_solutions (quad_label (length solutions)) 0 solutions of
                     None \<Rightarrow> quadratic_manual h problem no trail1
                   | Some formatted \<Rightarrow>
                       \<lparr>number = no, original = problem, type = js ''Quadratic Equation'',
                        steps = push trail1 (js ''Solutions found'') (join (js '', '') formatted),
                        answer = join (js '', '') formatted, error = None\<rparr>))"

subsection \<open>Cubic equations\<close>

text \<open>\<open>.\<close> of a regex: any code unit but a line terminator.\<close>

definition any_char :: re where
  "any_char = NCls [(10, 10), (13, 13), (8232, 8233)]"

record cubic_coeffs =
  ca :: jsnum
  cb :: jsnum
  cc :: jsnum
  cd :: jsnum

fun cubic_terms :: "jsstring list \<Rightarrow> cubic_coeffs \<Rightarrow> cubic_coeffs" where
  "cubic_terms [] acc = acc"
| "cubic_terms (term # terms) acc =
     (let t = trim term
      in if str_includes t (js ''x^3'') \<or> str_includes t [120, 179] then
           cubic_terms terms (acc\<lparr>ca := coef_value (trim
             (re_replace_first (seqs [chr 120, opt (chr 94), opt (chr 51)]) (\<lambda>m. []) t))\<rparr>)
         else if str_includes t (js ''x^2'') \<or> str_includes t [120, 178] then
           cubic_terms terms (acc\<lparr>cb := coef_value (trim
             (re_replace_first (seqs [chr 120, opt (chr 94), opt (chr 50)]) (\<lambda>m. []) t))\<rparr>)
         else if str_includes t (js ''x'') then
           cubic_terms terms (acc\<lparr>cc := coef_value (trim (replace_str (js ''x'') [] t))\<rparr>)
         else if t = [] then cubic_terms terms acc
         else cubic_terms terms (acc\<lparr>cd := num_or (parseFloat t) (Fin 0)\<rparr>))"

definition cubic_parse :: "jsstring \<Rightarrow> cubic_coeffs" where
  "cubic_parse problem =
     (let expr = trim (re_replace_first (Seq (chr 61) (Star any_char)) (\<lambda>m. [])
                         (sup2 (sup3 problem)))
      in cubic_terms (filter (\<lambda>t. trim t \<noteq> []) (split_chr 43 (minus_to_plus_minus expr)))
           \<lparr>ca = Fin 0, cb = Fin 0, cc = Fin 0, cd = Fin 0\<rparr>)"

text \<open>\<open>['\<^sub>1', '\<^sub>2', '\<^sub>3'][i] || ''\<close>\<close>

definition cubic_label :: "nat \<Rightarrow> jsstring" where
  "cubic_label i = (if i = 0 then sub1 else if i = 1 then sub2 else if i = 2 then sub3 else [])"

fun label_roots :: "host \<Rightarrow> nat \<Rightarrow> jsnum list \<Rightarrow> jsstring list" where
  "label_roots h i [] = []"
| "label_roots h i (r # rs) =
     (js ''x'' @ cubic_label i @ js '' = '' @ formatNumber h r) # label_roots h (Suc i) rs"

text \<open>
  Cardano's formula on the depressed cubic, for a leading coefficient that is not
  zero: the divisions by \<open>3*a*a\<close>, \<open>27*a*a*a\<close> and \<open>3*a\<close> are all in this function.
\<close>

definition cubic_p :: "cubic_coeffs \<Rightarrow> jsnum" where
  "cubic_p k = jdiv (jsub (jmul (jmul (Fin 3) (ca k)) (cc k)) (jmul (cb k) (cb k)))
                    (jmul (jmul (Fin 3) (ca k)) (ca k))"

definition cubic_q :: "cubic_coeffs \<Rightarrow> jsnum" where
  "cubic_q k =
     jdiv (jadd (jsub (jmul (jmul (jmul (Fin 2) (cb k)) (cb k)) (cb k))
                      (jmul (jmul (jmul (Fin 9) (ca k)) (cb k)) (cc k)))
                (jmul (jmul (jmul (Fin 27) (ca k)) (ca k)) (cd k)))
          (jmul (jmul (jmul (Fin 27) (ca k)) (ca k)) (ca k))"

definition cardano :: "host \<Rightarrow> jsstring \<Rightarrow> nat \<Rightarrow> cubic_coeffs \<Rightarrow> step list \<Rightarrow> solution" where
  "cardano h problem no k trail1 =
     (let a = ca k; b = cb k;
          p = cubic_p k;
          q = cubic_q k;
          trail2 = push trail1 (js ''Convert to depressed cubic t'' @ [179] @ js '' + pt + q = 0'')
                     (js ''p = '' @ formatNumber h p @ js '', q = '' @ formatNumber h q);
          discriminant = jadd (jdiv (jmul q q) (Fin 4)) (jdiv (jmul (jmul p p) p) (Fin 27));
          trail3 = push trail2 (js ''Cubic discriminant'')
                     ([916] @ js '' = q'' @ [178] @ js ''/4 + p'' @ [179] @ js ''/27 = ''
                        @ formatNumber h discriminant);
          shift = jdiv b (jmul (Fin 3) a)
      in if jgt discriminant (Fin 0) then
           (let sqrtDisc = jsqrt discriminant;
                u = jcbrt (jadd (jdiv (jneg q) (Fin 2)) sqrtDisc);
                v = jcbrt (jsub (jdiv (jneg q) (Fin 2)) sqrtDisc);
                x = jsub (jadd u v) shift;
                trail4 = push trail3 (js ''One real root (discriminant > 0)'')
                           (js ''x = '' @ formatNumber h x)
            in \<lparr>number = no, original = problem, type = js ''Cubic Equation'', steps = trail4,
                 answer = join (js '', '') (label_roots h 0 [x]), error = None\<rparr>)
         else if jeq discriminant (Fin 0) then
           (let u = jcbrt (jdiv (jneg q) (Fin 2));
                x1 = jsub (jmul (Fin 2) u) shift;
                x2 = jsub (jneg u) shift;
                trail4 = push trail3 (js ''Repeated roots (discriminant = 0)'')
                           (js ''x'' @ sub1 @ js '' = '' @ formatNumber h x1 @ js '', x'' @ sub2
                              @ js '' = '' @ formatNumber h x2)
            in \<lparr>number = no, original = problem, type = js ''Cubic Equation'', steps = trail4,
                 answer = join (js '', '') (label_roots h 0 [x1, x2]), error = None\<rparr>)
         else
           (let r = jsqrt (jdiv (jmul (jmul (jneg p) p) p) (Fin 27));
                theta = jacos (jdiv (jneg q) (jmul (Fin 2) r));
                roots = map (\<lambda>j. jsub (jmul (jmul (Fin 2) (jcbrt r))
                                          (jcos (jdiv (jadd theta (jmul (Fin (2 * pi)) (Fin (real j))))
                                                      (Fin 3))))
                                        shift) [0, 1, 2];
                trail4 = push trail3 (js ''Three real roots (trigonometric method)'')
                           (join [10] (label_roots h 0 roots))
            in \<lparr>number = no, original = problem, type = js ''Cubic Equation'', steps = trail4,
                 answer = join (js '', '') (label_roots h 0 roots), error = None\<rparr>))"

text \<open>
  The manual path of \<open>solveCubic\<close>: parse the coefficients; a leading coefficient equal
  to zero hands the problem to \<open>solveQuadratic\<close> (the steps pushed here are dropped with
  the local log), any other goes on to Cardano's formula.
\<close>

definition cubic_manual :: "host \<Rightarrow> jsstring \<Rightarrow> nat \<Rightarrow> step list \<Rightarrow> solution" where
  "cubic_manual h problem no trail0 =
     (let k = cubic_parse problem;
          trail1 = push trail0 (js ''Identify coefficients'')
                     (js ''a = '' @ str h (ca k) @ js '', b = '' @ str h (cb k) @ js '', c = ''
                        @ str h (cc k) @ js '', d = '' @ str h (cd k))
      in if jeq (ca k) (Fin 0) then solveQuadratic h problem no
         else cardano h problem no k trail1)"

definition solveCubic :: "host \<Rightarrow> jsstring \<Rightarrow> nat \<Rightarrow> solution" where
  "solveCubic h problem no =
     (let trail0 = push [] (js ''Original cubic equation'') problem;
          equation = sup2 (sup3 problem)
      in case nerdamer_solveEquations h equation of
           None \<Rightarrow> cubic_manual h problem no trail0
         | Some solutions \<Rightarrow>
             if solutions = [] then cubic_manual h problem no trail0
             else
               (let trail1 = push trail0 (js ''Solve using algebraic methods'')
                               (js ''Solving '' @ equation)
                in case format_solutions cubic_label 0 solutions of
                     None \<Rightarrow> cubic_manual h problem no trail1
                   | Some formatted \<Rightarrow>
                       \<lparr>number = no, original = problem, type = js ''Cubic Equation'',
                        steps = push trail1 (js ''Solutions found'') (join [10] formatted),
                        answer = join (js '', '') formatted, error = None\<rparr>))"

section \<open>Universal fallback\<close>

text \<open>\<open>analyzeProblem\<close>\<close>

definition first_occurrences :: "'a list \<Rightarrow> 'a list" where
  "first_occurrences xs = rev (remdups (rev xs))"

definition analyzeProblem :: "jsstring \<Rightarrow> jsstring" where
  "analyzeProblem problem =
     (let analysis =
            (case re_match_all (Cls cs_alpha) problem of
               None \<Rightarrow> []
             | Some vars \<Rightarrow>
                 [js ''Variables: '' @ join (js '', '') (first_occurrences (map (map ascii_lower) vars))])
            @ (if re_test (chr 43) problem then [js ''Contains addition''] else [])
            @ (if re_test (chr 45) problem then [js ''Contains subtraction''] else [])
            @ (if re_test (Cls [(42, 42), (215, 215)]) problem
               then [js ''Contains multiplication''] else [])
            @ (if re_test (Cls [(47, 47), (247, 247)]) problem then [js ''Contains division''] else [])
            @ (if re_test (alts [chr 94, chr 178, chr 179]) problem
               then [js ''Contains exponents''] else [])
            @ (if re_test (alts [lit (js ''sqrt''), chr 8730]) problem
               then [js ''Contains square root''] else [])
            @ (if re_test (chr 61) problem then [js ''This is an equation''] else [])
      in if join (js ''; '') analysis = [] then js ''Complex expression detected''
         else join (js ''; '') analysis)"

text \<open>Truthiness, and \<open>String(v)\<close> (\<open>None\<close> when it throws).\<close>

fun truthy :: "jsval \<Rightarrow> bool" where
  "truthy VNull = False"
| "truthy VUndefined = False"
| "truthy (VBool b) = b"
| "truthy (VNum x) = truthy_num x"
| "truthy (VStr s) = (s \<noteq> [])"
| "truthy (VObj t) = True"

fun to_string :: "host \<Rightarrow> jsval \<Rightarrow> jsstring option" where
  "to_string h VNull = Some (js ''null'')"
| "to_string h VUndefined = Some (js ''undefined'')"
| "to_string h (VBool b) = Some (if b then js ''true'' else js ''false'')"
| "to_string h (VNum x) = Some (str h x)"
| "to_string h (VStr s) = Some s"
| "to_string h (VObj t) = t"

text \<open>\<open>result && result !== 'undefined' && result !== 'NaN'\<close>\<close>

definition accepted :: "jsval \<Rightarrow> bool" where
  "accepted result =
     (truthy result \<and> result \<noteq> VStr (js ''undefined'') \<and> result \<noteq> VStr (js ''NaN''))"

definition strategies :: "host \<Rightarrow> jsstring \<Rightarrow> (jsstring \<times> outcome) list" where
  "strategies h problem =
     [(js ''Nerdamer Solve'', tryNerdamer h problem),
      (js ''Algebrite Solve'', tryAlgebrite h problem),
      (js ''Math.js Evaluate'', tryMathJs h problem),
      (js ''Symbolic Simplify'', trySimplify h problem),
      (js ''Pattern Analysis'', tryPatternMatch h problem)]"

text \<open>
  The loop over the strategies: the name and the text of the first result that is
  accepted and converts to a string; a throw anywhere in the body moves on to the
  next strategy.
\<close>

fun first_solved :: "host \<Rightarrow> (jsstring \<times> outcome) list \<Rightarrow> (jsstring \<times> jsstring) option" where
  "first_solved h [] = None"
| "first_solved h ((name, Throws) # others) = first_solved h others"
| "first_solved h ((name, Returns result) # others) =
     (if accepted result then
        (case to_string h result of
           None \<Rightarrow> first_solved h others
         | Some text \<Rightarrow> Some (name, text))
      else first_solved h others)"

definition universalFallback :: "host \<Rightarrow> jsstring \<Rightarrow> nat \<Rightarrow> exn \<Rightarrow> solution" where
  "universalFallback h problem no originalError =
     (let trail0 = push [] (js ''Problem Analysis'') (take 150 problem)
      in case first_solved h (strategies h problem) of
           Some (name, text) \<Rightarrow>
             \<lparr>number = no, original = problem, type = classifyProblem (ulower h) problem,
              steps = push trail0 (js ''Solved using '' @ name) text,
              answer = text, error = None\<rparr>
         | None \<Rightarrow>
             \<lparr>number = no, original = problem, type = classifyProblem (ulower h) problem,
              steps = push trail0 (js ''Analysis'') (analyzeProblem problem),
              answer = js ''Problem requires manual analysis - see breakdown above'',
              error = message originalError\<rparr>)"



section \<open>Input normalizer\<close>

text \<open>\<open>$i\<close> in a replacement string: the text of group \<open>i\<close>, empty if it took no part.\<close>

definition dollar :: "rmatch \<Rightarrow> nat \<Rightarrow> jsstring" where
  "dollar m i = (case grp m i of None \<Rightarrow> [] | Some g \<Rightarrow> g)"

text \<open>\<open>[=+\-*/]\<close> and the lookahead \<open>(?=\s*[=+\-*/])\<close>\<close>

definition cs_operator :: cset where
  "cs_operator = [(61, 61), (43, 43), (45, 45), (42, 42), (47, 47)]"

definition before_operator :: re where
  "before_operator = Look (Seq ws (Cls cs_operator))"

text \<open>\<open>[+-]?\d+\<close>\<close>

definition signed_digits :: re where
  "signed_digits = Seq (opt (Cls [(43, 43), (45, 45)])) (plus (Cls cs_digit))"

definition re_triple :: re where
  "re_triple = seqs [chr 40, ws, Grp 1 signed_digits, plus (Cls cs_space), Grp 2 signed_digits,
                     plus (Cls cs_space), Grp 3 signed_digits, ws, chr 41]"

definition re_pair :: re where
  "re_pair = seqs [chr 40, ws, Grp 1 signed_digits, plus (Cls cs_space), Grp 2 signed_digits,
                   ws, chr 41]"

text \<open>
  \<open>cleanInput\<close>, one definition per \<open>replace\<close> of the chain, in the source's order.
  The multiplication signs are U+00D7 and U+2715, the division sign U+00F7, the
  dashes U+2212, U+2013 and U+2014; the two quote classes of the source hold the
  apostrophe and the backquote, and the double quote.
\<close>

definition clean1 :: "jsstring \<Rightarrow> jsstring" where
  "clean1 = re_replace_all (Cls [(215, 215), (10005, 10005)]) (\<lambda>m. js ''*'')"

definition clean2 :: "jsstring \<Rightarrow> jsstring" where
  "clean2 = re_replace_all (Cls [(247, 247)]) (\<lambda>m. js ''/'')"

definition clean3 :: "jsstring \<Rightarrow> jsstring" where
  "clean3 = re_replace_all (Cls [(8722, 8722), (8211, 8211), (8212, 8212)]) (\<lambda>m. js ''-'')"

definition clean4 :: "jsstring \<Rightarrow> jsstring" where
  "clean4 = re_replace_all (Cls [(39, 39), (39, 39), (96, 96)]) (\<lambda>m. [39])"

definition clean5 :: "jsstring \<Rightarrow> jsstring" where
  "clean5 = re_replace_all (Cls [(34, 34), (34, 34)]) (\<lambda>m. [34])"

definition clean6 :: "jsstring \<Rightarrow> jsstring" where
  "clean6 = re_replace_all (seqs [Wb, chr 108, Wb, before_operator]) (\<lambda>m. js ''1'')"

definition clean7 :: "jsstring \<Rightarrow> jsstring" where
  "clean7 = re_replace_all (seqs [Wb, chr 79, Wb, before_operator]) (\<lambda>m. js ''0'')"

definition clean8 :: "jsstring \<Rightarrow> jsstring" where
  "clean8 = re_replace_all (plus (Cls cs_space)) (\<lambda>m. js '' '')"

definition clean9 :: "jsstring \<Rightarrow> jsstring" where
  "clean9 = re_replace_all (seqs [Grp 1 (Cls cs_digit), ws, chr 40]) (\<lambda>m. dollar m 1 @ js ''*('')"

definition clean10 :: "jsstring \<Rightarrow> jsstring" where
  "clean10 = re_replace_all (seqs [chr 41, ws, Grp 1 (Cls cs_digit)]) (\<lambda>m. js '')*'' @ dollar m 1)"

definition clean11 :: "jsstring \<Rightarrow> jsstring" where
  "clean11 = re_replace_all (seqs [chr 41, ws, chr 40]) (\<lambda>m. js '')*('')"

definition clean12 :: "jsstring \<Rightarrow> jsstring" where
  "clean12 = re_replace_all re_triple
     (\<lambda>m. js ''('' @ dollar m 1 @ js '', '' @ dollar m 2 @ js '', '' @ dollar m 3 @ js '')'')"

definition clean13 :: "jsstring \<Rightarrow> jsstring" where
  "clean13 = re_replace_all re_pair
     (\<lambda>m. js ''('' @ dollar m 1 @ js '', '' @ dollar m 2 @ js '')'')"

definition cleanInput :: "jsstring \<Rightarrow> jsstring" where
  "cleanInput input =
     trim (clean13 (clean12 (clean11 (clean10 (clean9 (clean8 (clean7 (clean6 (clean5 (clean4
       (clean3 (clean2 (clean1 input)))))))))))))"

section \<open>Problem segmenter\<close>

definition cs_upper :: cset where
  "cs_upper = [(65, 90)]"

text \<open>The four exam patterns (all with the \<open>i\<close> flag); the first has a capture group.\<close>

definition examPatterns :: "(re \<times> nat list) list" where
  "examPatterns =
     [(Grp 1 (seqs [plus (Cls cs_digit), opt (Cls cs_alpha), chr 46, ws, chr 91,
                    Star (NCls [(93, 93)]), chr 93, ws]), [1]),
      (Look (seqs [Wb, plus (Cls cs_digit), opt (Cls cs_alpha), chr 46, plus (Cls cs_space),
                   alts [lit_i (js ''Find''), lit_i (js ''Show''), lit_i (js ''Prove''),
                         lit_i (js ''Calculate''), lit_i (js ''Determine''), lit_i (js ''Given'')]]),
       []),
      (Look (seqs [chr 40, ws, Cls cs_alpha, ws, chr 41, ws]), []),
      (Look (seqs [Wb, alts [lit_i (js ''Question''), lit_i (js ''Q'')], ws, plus (Cls cs_digit)]),
       [])]"

text \<open>\<open>p.length > 15 && /[a-z]/i.test(p) && /\d/.test(p)\<close>\<close>

definition exam_piece_ok :: "jsstring \<Rightarrow> bool" where
  "exam_piece_ok p = (length p > 15 \<and> re_test (Cls cs_alpha) p \<and> re_test (Cls cs_digit) p)"

text \<open>The loop over the exam patterns: the first split with more than one good piece.\<close>

fun exam_split :: "(re \<times> nat list) list \<Rightarrow> jsstring \<Rightarrow> jsstring list option" where
  "exam_split [] input = None"
| "exam_split ((examPattern, gs) # more_patterns) input =
     (if re_test examPattern input then
        (let problems = filter exam_piece_ok (map trim (re_split examPattern gs input))
         in if length problems > 1 then Some problems else exam_split more_patterns input)
      else exam_split more_patterns input)"

text \<open>
  \<open>/(?=The\s+(?:line|plane|point)|(?=Find\s+the)|(?=Show\s+that)|(?=Calculate)|(?=Given\s+that))/i\<close>
\<close>

definition re_content :: re where
  "re_content = Look (alts
     [seqs [lit_i (js ''The''), plus (Cls cs_space),
            alts [lit_i (js ''line''), lit_i (js ''plane''), lit_i (js ''point'')]],
      Look (seqs [lit_i (js ''Find''), plus (Cls cs_space), lit_i (js ''the'')]),
      Look (seqs [lit_i (js ''Show''), plus (Cls cs_space), lit_i (js ''that'')]),
      Look (lit_i (js ''Calculate'')),
      Look (seqs [lit_i (js ''Given''), plus (Cls cs_space), lit_i (js ''that'')])])"

text \<open>The generic separators, in order.\<close>

definition patterns :: "re list" where
  "patterns =
     [seqs [chr 10, ws, chr 10],
      Look (seqs [plus (Cls cs_digit), chr 41, ws, Cls cs_upper]),
      Look (seqs [plus (Cls cs_digit), chr 46, ws, Cls cs_upper]),
      Look (seqs [Cls cs_alpha, chr 41, ws, Cls cs_alpha]),
      seqs [chr 59, ws]]"

fun split_cascade :: "re list \<Rightarrow> jsstring list \<Rightarrow> jsstring list" where
  "split_cascade [] problems = problems"
| "split_cascade (pattern # more_patterns) problems =
     (if length problems > 10 then problems
      else
        (let newProblems =
               concat (map (\<lambda>prob. filter (\<lambda>p. trim p \<noteq> []) (re_split pattern [] prob)) problems)
         in split_cascade more_patterns
              (if length newProblems > length problems then newProblems else problems)))"

text \<open>\<open>trimmed.length > 5 && /[\d\+\-\*\/\=xyz\[\]\(\)]/.test(trimmed)\<close>\<close>

definition cs_mathy :: cset where
  "cs_mathy = [(48, 57), (43, 43), (45, 45), (42, 42), (47, 47), (61, 61), (120, 122),
               (91, 91), (93, 93), (40, 40), (41, 41)]"

definition has_math_content :: "jsstring \<Rightarrow> bool" where
  "has_math_content p = (length (trim p) > 5 \<and> re_test (Cls cs_mathy) (trim p))"

definition extractProblems :: "jsstring \<Rightarrow> jsstring list" where
  "extractProblems input =
     (case exam_split examPatterns input of
        Some problems \<Rightarrow> problems
      | None \<Rightarrow>
          (let contentSplit = re_split re_content [] input;
               filtered = filter (\<lambda>p. length (trim p) > 20) contentSplit
           in if length contentSplit > 1 \<and> length filtered > 1 then filtered
              else filter has_math_content (split_cascade patterns [input])))"

section \<open>Type detector and dispatcher\<close>

definition isMatrix :: "jsstring \<Rightarrow> bool" where
  "isMatrix problem = re_test (alts [lit_i (js ''matrix''), lit_i (js ''determinant''),
     lit_i (js ''inverse''), lit_i (js ''transpose''), lit_i (js ''eigenvalue''),
     lit_i (js ''eigenvector''), seqs [chr 91, ws, chr 91], seqs [chr 93, ws, chr 93],
     seqs [lit_i (js ''det''), ws, chr 40]]) problem"

definition isStatistics :: "jsstring \<Rightarrow> bool" where
  "isStatistics problem = re_test (alts [lit_i (js ''mean''), lit_i (js ''median''),
     lit_i (js ''mode''), seqs [lit_i (js ''standard''), ws, lit_i (js ''deviation'')],
     lit_i (js ''variance''), lit_i (js ''average''), lit_i (js ''probability''),
     lit_i (js ''percentile''), lit_i (js ''quartile'')]) problem"

definition isLimit :: "jsstring \<Rightarrow> bool" where
  "isLimit problem = re_test (alts [lit_i (js ''limit''), seqs [lit_i (js ''lim''), Cls cs_space],
     lit_i (js ''lim(''), chr 8594, lit_i (js ''approaches''),
     seqs [lit_i (js ''as''), plus (Cls cs_space), chr_i 120, ws, chr 8594]]) problem"

definition isSeries :: "jsstring \<Rightarrow> bool" where
  "isSeries problem = re_test (alts [lit_i (js ''series''),
     seqs [lit_i (js ''sum''), plus (Cls cs_space), Grp 1 (alts [lit_i (js ''of''), lit_i (js ''from'')])],
     chr 8721, lit_i (js ''sigma''), lit_i (js ''sequence''),
     seqs [lit_i (js ''nth''), ws, lit_i (js ''term'')],
     seqs [lit_i (js ''arithmetic''), ws, lit_i (js ''sequence'')],
     seqs [lit_i (js ''geometric''), ws, lit_i (js ''sequence'')]]) problem"

definition isLogarithm :: "jsstring \<Rightarrow> bool" where
  "isLogarithm problem = re_test (alts [wordb (js ''log''), wordb (js ''ln''),
     lit_i (js ''logarithm''), seqs [lit_i (js ''natural''), ws, lit_i (js ''log'')]]) problem"

definition isComplexNumber :: "jsstring \<Rightarrow> bool" where
  "isComplexNumber problem = re_test (alts [lit_i (js ''complex''), lit_i (js ''imaginary''),
     seqs [Wb, chr_i 105, Wb, Star any_char, Cls [(43, 43), (45, 45)]],
     seqs [plus (Cls cs_digit), ws, Cls [(43, 43), (45, 45)], ws, Star (Cls cs_digit), chr_i 105],
     lit_i (js ''conjugate''), seqs [lit_i (js ''arg''), ws, chr 40]]) problem"

definition isGraph :: "jsstring \<Rightarrow> bool" where
  "isGraph problem =
     (re_test (seqs [Bol, ws, Grp 1 (alts [lit_i (js ''graph''), lit_i (js ''plot'')]), Wb]) problem
      \<or> re_test (seqs [chr_i 121, ws, chr 61, ws, NCls [(61, 61)]]) problem)"

definition isCompoundRequest :: "jsstring \<Rightarrow> bool" where
  "isCompoundRequest problem =
     (re_test (seqs [lit_i (js ''then''), plus (Cls cs_space),
                     Grp 1 (alts [lit_i (js ''graph''), lit_i (js ''plot'')])]) problem
      \<or> re_test (alts [seqs [lit_i (js ''graph''), Star any_char, lit_i (js ''solve'')],
                        seqs [lit_i (js ''solve''), Star any_char, lit_i (js ''graph'')]]) problem)"

definition isGeometry :: "jsstring \<Rightarrow> bool" where
  "isGeometry problem = re_test (alts (map lit_i (map js [''area'', ''perimeter'',
     ''circumference'', ''volume'', ''radius'', ''diameter'', ''circle'', ''triangle'',
     ''rectangle'', ''square'', ''sphere'', ''cube'', ''cylinder'', ''cone'', ''polygon'',
     ''hypotenuse'', ''pythagorean'']))) problem"

text \<open>
  \<open>isVector\<close>.  The symbols outside the basic plane are pairs of surrogates: the bold
  r U+1D42B, the italic x, y, z U+1D465 to U+1D467, the italic capital pi U+1D6F1,
  the italic mu U+1D707 and lambda U+1D706; the others are the arrow U+2192, the
  bullet U+2022, the times sign U+00D7 and the double-struck R U+211D.
\<close>

definition re_triple_commas :: re where
  "re_triple_commas = seqs [chr 40, ws, plus (Cls cs_digit), ws, chr 44, ws, plus (Cls cs_digit),
                            ws, chr 44, ws, plus (Cls cs_digit), ws, chr 41]"

definition isVector :: "jsstring \<Rightarrow> bool" where
  "isVector problem =
     (re_test (alts [chr 8594, lit_i (js ''vector''),
         seqs [lit_i (js ''dot''), ws, lit_i (js ''product'')],
         seqs [lit_i (js ''cross''), ws, lit_i (js ''product'')],
         chr 8226, chr 215,
         seqs [lit_i (js ''position''), ws, lit_i (js ''vector'')],
         seqs [lit_i (js ''unit''), ws, lit_i (js ''vector'')],
         lit_i (js ''magnitude''), lit_i (js ''parallel''), lit_i (js ''perpendicular''),
         lit_i (js ''normal''), lit_i (js ''plane''),
         seqs [lit_i (js ''cartesian''), ws, lit_i (js ''equation'')],
         seqs [lit_i (js ''line''), ws, lit_i (js ''equation'')],
         lit [55349, 56363], lit_i (js ''reflection''), lit_i (js ''intersection'')]) problem
      \<or> re_test (seqs [Wb, Cls cs_alpha, Cls cs_alpha, ws, chr 8594]) problem
      \<or> re_test re_triple_commas problem
      \<or> re_test (seqs [lit_i (js ''coordinate''), opt (chr_i 115), ws,
                        opt (Grp 1 (seqs [lit_i (js ''of''), ws])), Cls cs_alpha, ws, chr 40]) problem
      \<or> re_test (alts [lit [55349, 56421], lit [55349, 56422], lit [55349, 56423], chr 8477,
                        lit [55349, 57073], lit [55349, 57095], lit [55349, 57094]]) problem)"

definition isIntegral :: "jsstring \<Rightarrow> bool" where
  "isIntegral problem = re_test (alts [lit_i (js ''integrate''), lit_i (js ''integral''), chr 8747,
     lit_i (js ''antiderivative'')]) problem"

definition isDerivative :: "jsstring \<Rightarrow> bool" where
  "isDerivative problem = re_test (alts [lit_i (js ''derive''), lit_i (js ''derivative''),
     lit_i (js ''differentiate''), lit_i (js ''d/dx''), lit_i [102, 39, 40], lit_i [102, 39]]) problem"

definition re_power3 :: "cset \<Rightarrow> re" where
  "re_power3 letters = alts [seqs [Cls letters, lit (js ''^3'')], seqs [Cls letters, chr 179]]"

definition re_power2 :: "cset \<Rightarrow> re" where
  "re_power2 letters = alts [seqs [Cls letters, lit (js ''^2'')], seqs [Cls letters, chr 178]]"

definition isCubicEquation :: "jsstring \<Rightarrow> bool" where
  "isCubicEquation problem =
     ((re_test (re_power3 cs_alpha) problem \<and> re_test (chr 61) problem)
      \<or> re_test (lit_i (js ''cubic'')) problem)"

definition isQuadraticEquation :: "jsstring \<Rightarrow> bool" where
  "isQuadraticEquation problem =
     (re_test (re_power2 cs_lower) problem \<and> re_test (chr 61) problem
      \<and> \<not> re_test (re_power3 cs_lower) problem)"

definition isLinearEquation :: "jsstring \<Rightarrow> bool" where
  "isLinearEquation problem =
     (re_test (Cls cs_lower) problem \<and> re_test (chr 61) problem \<and> \<not> re_test (chr 94) problem)"

definition isSimplification :: "jsstring \<Rightarrow> bool" where
  "isSimplification problem =
     (re_test (alts [lit_i (js ''simplify''), lit_i (js ''expand''), lit_i (js ''factor'')]) problem
      \<or> (re_test (Cls cs_lower) problem \<and> \<not> re_test (chr 61) problem
          \<and> re_test (Cls [(43, 43), (45, 45), (42, 42), (47, 47)]) problem))"

definition isSystem :: "jsstring \<Rightarrow> bool" where
  "isSystem problem =
     (re_test (alts [lit (js ''system''), lit (js ''and''), chr 44]) problem
      \<and> length (match_all_from (chr 61) [] problem) > 1)"

definition isArithmetic :: "jsstring \<Rightarrow> bool" where
  "isArithmetic problem = re_test (seqs [Bol, plus (Cls cs_arith), Eol]) problem"

text \<open>
  The solvers that are not modelled here (they evaluate closed formulas or call the
  libraries) are parameters of the dispatcher: each returns a record or throws.
\<close>

record solvers =
  solveCompoundRequest :: "jsstring \<Rightarrow> nat \<Rightarrow> exn + solution"
  solveVector :: "jsstring \<Rightarrow> nat \<Rightarrow> exn + solution"
  solveMatrix :: "jsstring \<Rightarrow> nat \<Rightarrow> exn + solution"
  solveStatistics :: "jsstring \<Rightarrow> nat \<Rightarrow> exn + solution"
  solveLimit :: "jsstring \<Rightarrow> nat \<Rightarrow> exn + solution"
  solveSeries :: "jsstring \<Rightarrow> nat \<Rightarrow> exn + solution"
  solveLogarithm :: "jsstring \<Rightarrow> nat \<Rightarrow> exn + solution"
  solveTrigonometry :: "jsstring \<Rightarrow> nat \<Rightarrow> exn + solution"
  solveComplexNumber :: "jsstring \<Rightarrow> nat \<Rightarrow> exn + solution"
  solveGraph :: "jsstring \<Rightarrow> nat \<Rightarrow> exn + solution"
  solveGeometry :: "jsstring \<Rightarrow> nat \<Rightarrow> exn + solution"
  solveIntegral :: "jsstring \<Rightarrow> nat \<Rightarrow> exn + solution"
  solveDerivative :: "jsstring \<Rightarrow> nat \<Rightarrow> exn + solution"
  solveSimplification :: "jsstring \<Rightarrow> nat \<Rightarrow> exn + solution"
  solveSystem :: "jsstring \<Rightarrow> nat \<Rightarrow> exn + solution"
  solveArithmetic :: "jsstring \<Rightarrow> nat \<Rightarrow> exn + solution"
  solveGeneric :: "jsstring \<Rightarrow> nat \<Rightarrow> exn + solution"

definition solveProblem :: "host \<Rightarrow> solvers \<Rightarrow> jsstring \<Rightarrow> nat \<Rightarrow> exn + solution" where
  "solveProblem h sv problem no =
     (let problemLower = toLowerCase (ulower h) problem
      in if isCompoundRequest problemLower then solveCompoundRequest sv problem no
         else if isVector problemLower then solveVector sv problem no
         else if isMatrix problemLower then solveMatrix sv problem no
         else if isStatistics problemLower then solveStatistics sv problem no
         else if isLimit problemLower then solveLimit sv problem no
         else if isSeries problemLower then solveSeries sv problem no
         else if isLogarithm problemLower then solveLogarithm sv problem no
         else if isTrigonometry problemLower then solveTrigonometry sv problem no
         else if isComplexNumber problemLower then solveComplexNumber sv problem no
         else if isGraph problemLower then solveGraph sv problem no
         else if isGeometry problemLower then solveGeometry sv problem no
         else if isIntegral problemLower then solveIntegral sv problem no
         else if isDerivative problemLower then solveDerivative sv problem no
         else if isCubicEquation problem then Inr (solveCubic h problem no)
         else if isQuadraticEquation problem then Inr (solveQuadratic h problem no)
         else if isLinearEquation problem then solveLinearEquation h problem no
         else if isSimplification problem then solveSimplification sv problem no
         else if isSystem problem then solveSystem sv problem no
         else if isArithmetic problem then solveArithmetic sv problem no
         else solveGeneric sv problem no)"

section \<open>The entry point\<close>

text \<open>
  \<open>solve\<close>: normalize, segment, and for each problem the dispatcher, or the universal
  fallback on whatever the dispatcher throws.  Saving to the history store is
  asynchronous and does not touch the result.
\<close>

fun solve_each :: "host \<Rightarrow> solvers \<Rightarrow> nat \<Rightarrow> jsstring list \<Rightarrow> solution list" where
  "solve_each h sv index [] = []"
| "solve_each h sv index (problem # problems) =
     (case solveProblem h sv problem (index + 1) of
        Inr result \<Rightarrow> result
      | Inl err \<Rightarrow> universalFallback h problem (index + 1) err)
     # solve_each h sv (index + 1) problems"

definition solve :: "host \<Rightarrow> solvers \<Rightarrow> jsstring \<Rightarrow> solution list" where
  "solve h sv input = solve_each h sv 0 (extractProblems (cleanInput input))"

section \<open>Notions used in the proofs\<close>







section \<open>Sample hosts\<close>

text \<open>
  A host without any library, used to evaluate the solver on concrete inputs:
  \<open>nerdamer\<close> and \<open>Algebrite\<close> are undefined, so the calls to them throw and the two
  strategies built on them return \<open>null\<close>; the strategies built on \<open>math\<close> throw; the
  pattern strategy returns \<open>null\<close>, as it does on a problem without a factorial,
  percentage, ratio or primality pattern.  The two text algorithms are stand-ins
  that the evaluations below never reach (they print integers and lower ASCII text).
\<close>

definition bare_host :: host where
  "bare_host =
     \<lparr>dtoa = (\<lambda>x. []), ulower = map ascii_lower,
      algebrite_run = (\<lambda>e. None), nerdamer_text = (\<lambda>e. None),
      nerdamer_solveEquations = (\<lambda>e. None),
      tryNerdamer = (\<lambda>p. Returns VNull), tryAlgebrite = (\<lambda>p. Returns VNull),
      tryMathJs = (\<lambda>p. Throws), trySimplify = (\<lambda>p. Throws),
      tryPatternMatch = (\<lambda>p. Returns VNull)\<rparr>"




section \<open>Evaluation and matcher lemmas\<close>

lemmas re_defs = re_test_def re_match_def exec_at_def chr_def chr_i_def lit_def lit_i_def
  plus_def opt_def cs_digit_def cs_space_def cs_word_def cs_coef_def cs_alpha_def cs_lower_def
  cs_upper_def at_word_boundary_def js_def ws_def matched_text_def grp_def any_char_def


lemma star_iter_nonempty: "star_iter n f s \<noteq> []"
  by (cases n) simp_all

lemma ms_Seq_empty_iff: "ms (Seq a b) s = [] \<longleftrightarrow> (\<forall>t \<in> set (ms a s). ms b t = [])"
  by simp

lemma seq_empty_mono:
  "(\<And>t. ms b t = [] \<Longrightarrow> ms b' t = []) \<Longrightarrow> ms (Seq a b) s = [] \<Longrightarrow> ms (Seq a b') s = []"
  unfolding ms_Seq_empty_iff by blast

lemma search_from_None_mono:
  assumes "\<And>p s. exec_at r1 p s = None \<Longrightarrow> exec_at r2 p s = None"
  shows "search_from r1 p s = None \<Longrightarrow> search_from r2 p s = None"
proof (induction s arbitrary: p)
  case Nil
  then show ?case using assms [of p "[]"] by (simp split: option.splits)
next
  case (Cons c s)
  then show ?case using assms [of p "c # s"] by (simp split: option.splits)
qed

lemma ms_chr_i_self:
  "ms (chr_i c) \<lparr>seen = p, rest = c # s, caps = g\<rparr> = [\<lparr>seen = c # p, rest = s, caps = g\<rparr>]"
  by (simp add: chr_i_def)

lemma ms_lit_i_nonempty:
  "starts_with s k \<Longrightarrow> ms (lit_i k) \<lparr>seen = p, rest = s, caps = g\<rparr> \<noteq> []"
proof (induction k arbitrary: s p)
  case Nil
  then show ?case by (simp add: lit_i_def)
next
  case (Cons a k)
  then obtain s' where s: "s = a # s'" and sw: "starts_with s' k"
    by (cases s) auto
  from Cons.IH [OF sw] show ?case
    by (simp add: s lit_i_def ms_chr_i_self)
qed

lemma search_from_found:
  "str_includes s k \<Longrightarrow>
   (\<And>p t. starts_with t k \<Longrightarrow> ms r \<lparr>seen = p, rest = t, caps = []\<rparr> \<noteq> []) \<Longrightarrow>
   search_from r p s \<noteq> None"
proof (induction s arbitrary: p)
  case Nil
  then have "k = []" by simp
  with Nil.prems(2) [of "[]" p] show ?case
    by (simp add: exec_at_def split: list.splits)
next
  case (Cons c s)
  show ?case
  proof (cases "starts_with (c # s) k")
    case True
    with Cons.prems(2) [of "c # s" p] show ?thesis
      by (simp add: exec_at_def split: list.splits)
  next
    case False
    with Cons.prems(1) have "str_includes s k" by simp
    from Cons.IH [OF this Cons.prems(2)] show ?thesis
      by (simp split: option.splits)
  qed
qed

section \<open>Classification and the area exclusion\<close>

lemma area_found: "str_includes p (js ''area'') \<Longrightarrow> re_test re_area_perimeter p"
  unfolding re_test_def
  by (rule search_from_found [where k = "js ''area''"])
     (simp_all add: re_area_perimeter_def ms_lit_i_nonempty)

lemma classify_area_sin:
  "classifyProblem (map ascii_lower) (js ''area sin'') = js ''Trigonometry''"
  by (simp add: classifyProblem_def classify_scores_def toLowerCase_def cs_caseless_def
      ascii_lower_def keyword_score_def problemCategories_def re_defs re_cls_algebra_def
      re_cls_calculus_def re_cls_vector_def re_cls_matrix_def re_cls_trig_def re_cls_log_def
      re_cls_arith_def cs_arith_def bump_def)

text \<open>
  Claim C3, as stated, fails: the classifier has no exclusion rule.  The text
  \<open>area sin\<close> contains both \<open>area\<close> and \<open>sin\<close>; Geometry scores 4 for its keyword
  \<open>area\<close>, Trigonometry scores 3 for its keyword \<open>sin\<close> plus the pattern bonus 3, and
  \<open>classifyProblem\<close> returns \<open>Trigonometry\<close>.
\<close>

theorem classify_area_sin_is_Trigonometry:
  "str_includes (js ''area sin'') (js ''area'') \<and> str_includes (js ''area sin'') (js ''sin'')
   \<and> classifyProblem (ulower bare_host) (js ''area sin'') = js ''Trigonometry''"
proof -
  have "str_includes (js ''area sin'') (js ''area'')" by (simp add: js_def)
  moreover have "str_includes (js ''area sin'') (js ''sin'')" by (simp add: js_def)
  ultimately show ?thesis by (simp add: classify_area_sin bare_host_def)
qed

text \<open>
  Claim C3, amended: the exclusion rule belongs to the dispatch predicate.  For every
  problem string that contains the substring \<open>area\<close> (so in particular for one that
  also contains \<open>sin\<close>), \<open>isTrigonometry\<close> is false, and the dispatcher does not choose
  the trigonometry solver on its account.
\<close>

theorem isTrigonometry_excludes_area:
  "str_includes problem (js ''area'') \<Longrightarrow> \<not> isTrigonometry problem"
  by (simp add: isTrigonometry_def area_found)

text \<open>Witness for C3: \<open>area sin\<close> has a trigonometric word and is excluded.\<close>

theorem isTrigonometry_excludes_area_witness:
  "str_includes (js ''area sin'') (js ''area'') \<and> re_test re_trig_words (js ''area sin'')
   \<and> \<not> isTrigonometry (js ''area sin'')"
proof -
  have h: "str_includes (js ''area sin'') (js ''area'')" by (simp add: js_def)
  have w: "re_test re_trig_words (js ''area sin'')"
    by (simp add: re_defs re_trig_words_def wordb_def)
  show ?thesis using h w isTrigonometry_excludes_area [OF h] by simp
qed

section \<open>Differentiation of unrecognised terms\<close>

lemma power_tail_nonempty: "ms (Seq (opt r) (Seq (Grp i (Star c)) Eps)) t \<noteq> []"
  by (simp add: opt_def star_iter_nonempty)

lemma power_x_fails:
  "exec_at re_power p s = None \<Longrightarrow> exec_at re_power_x p s = None"
proof -
  let ?st = "\<lparr>seen = p, rest = s, caps = []\<rparr>"
  assume "exec_at re_power p s = None"
  then have "ms re_power ?st = []"
    by (simp add: exec_at_def split: list.splits)
  then have "ms re_power_x ?st = []"
    unfolding re_power_def re_power_x_def seqs.simps
    apply (elim seq_empty_mono [rotated])
    using power_tail_nonempty by blast
  then show ?thesis by (simp add: exec_at_def)
qed

lemma re_power_x_None: "re_match re_power term = None \<Longrightarrow> re_match re_power_x term = None"
  using search_from_None_mono [of re_power re_power_x "[]" "term", OF power_x_fails]
  by (auto simp: re_match_def split: option.splits)

text \<open>
  Claim C10.  For every term that contains \<open>x\<close> but matches none of the
  differentiation rules (sin, cos, tan, the exponential, ln or log, the square root,
  and the anchored coefficient-and-power pattern), \<open>differentiateTerm\<close> returns the
  term unchanged, neither \<open>0\<close> nor an error, and pushes no step.  (When the power
  pattern fails, so does the shorter pattern tried after it.)
\<close>

theorem differentiateTerm_unrecognised_unchanged:
  assumes "str_includes term (js ''x'')"
    and "\<not> re_test (re_fn_of_x (js ''sin'')) term"
    and "\<not> re_test (re_fn_of_x (js ''cos'')) term"
    and "\<not> re_test (re_fn_of_x (js ''tan'')) term"
    and "\<not> re_test re_d_exp term"
    and "\<not> re_test re_d_ln term"
    and "\<not> re_test re_d_sqrt term"
    and "re_match re_power term = None"
  shows "differentiateTerm h term trail = (term, trail)"
  using assms re_power_x_None [of "term"] by (simp add: differentiateTerm_def)

text \<open>
  Witness for C10: the term \<open>1/2x^2\<close>, which is what \<open>integrateTerm\<close> makes of \<open>x\<close>,
  contains \<open>x\<close>, matches no rule, and is returned as its own derivative.
\<close>

theorem differentiateTerm_unrecognised_unchanged_witness:
  "str_includes (js ''1/2x^2'') (js ''x'')
   \<and> \<not> re_test (re_fn_of_x (js ''sin'')) (js ''1/2x^2'')
   \<and> \<not> re_test (re_fn_of_x (js ''cos'')) (js ''1/2x^2'')
   \<and> \<not> re_test (re_fn_of_x (js ''tan'')) (js ''1/2x^2'')
   \<and> \<not> re_test re_d_exp (js ''1/2x^2'')
   \<and> \<not> re_test re_d_ln (js ''1/2x^2'')
   \<and> \<not> re_test re_d_sqrt (js ''1/2x^2'')
   \<and> re_match re_power (js ''1/2x^2'') = None
   \<and> differentiateTerm bare_host (js ''1/2x^2'') [] = (js ''1/2x^2'', [])"
proof -
  have a: "str_includes (js ''1/2x^2'') (js ''x'')" by (simp add: js_def)
  have b: "\<not> re_test (re_fn_of_x (js ''sin'')) (js ''1/2x^2'')"
    by (simp add: re_fn_of_x_def re_defs)
  have c: "\<not> re_test (re_fn_of_x (js ''cos'')) (js ''1/2x^2'')"
    by (simp add: re_fn_of_x_def re_defs)
  have d: "\<not> re_test (re_fn_of_x (js ''tan'')) (js ''1/2x^2'')"
    by (simp add: re_fn_of_x_def re_defs)
  have e: "\<not> re_test re_d_exp (js ''1/2x^2'')"
    by (simp add: re_d_exp_def re_fn_of_x_def re_defs)
  have f: "\<not> re_test re_d_ln (js ''1/2x^2'')"
    by (simp add: re_d_ln_def re_fn_of_x_def re_defs)
  have g: "\<not> re_test re_d_sqrt (js ''1/2x^2'')"
    by (simp add: re_d_sqrt_def re_fn_of_x_def re_defs)
  have i: "re_match re_power (js ''1/2x^2'') = None"
    by (simp add: re_power_def re_defs)
  show ?thesis
    using a b c d e f g i differentiateTerm_unrecognised_unchanged [OF a b c d e f g i]
    by simp
qed

section \<open>Integration at the exponent -1\<close>

lemmas int_re_defs = re_i_functions_def re_i_scaled_def re_i_coef_def re_i_squared_def
  re_i_product_def re_i_ex_def re_i_eax_def re_i_reciprocal_def re_i_ln_def re_i_arctan_def
  re_i_arcsin_def

text \<open>
  The generic power rule divides by \<open>n + 1\<close> only after the test for \<open>n = -1\<close> has
  failed, and then the divisor is not zero.
\<close>

lemma power_rule_divisor_nonzero:
  "\<not> jeq expo (Fin (- 1)) \<Longrightarrow> jadd expo (Fin 1) \<noteq> Fin 0"
  by (cases expo) auto








lemma integrate_reciprocals:
  "fst (integrateTerm h (js ''x^-1'') trail) = js ''ln|x|''"
  "fst (integrateTerm h (js ''1/x'') trail) = js ''ln|x|''"
  by (simp_all add: integrateTerm_def integrate_special_def int_re_defs re_defs Let_def trim_def)


section \<open>Integration followed by differentiation\<close>

subsection \<open>The matcher moves forward\<close>






subsection \<open>A regex that needs a code unit the text lacks\<close>




subsection \<open>The reported match\<close>












subsection \<open>The power pattern on the text of a term\<close>






subsection \<open>Printing and reading integers\<close>






































section \<open>The linear solver and the dispatch layer\<close>


lemmas clean_defs = cleanInput_def clean1_def clean2_def clean3_def clean4_def clean5_def clean6_def
      clean7_def clean8_def clean9_def clean10_def clean11_def clean12_def clean13_def
      re_replace_all_def re_triple_def re_pair_def signed_digits_def before_operator_def
      cs_operator_def trim_def
lemmas extract_defs = extractProblems_def examPatterns_def re_content_def patterns_def re_split_def
      exam_piece_ok_def has_math_content_def cs_mathy_def trim_def Let_def









section \<open>The cubic solver with a zero leading coefficient\<close>




section \<open>The quadratic solver\<close>






section \<open>The universal fallback\<close>











section \<open>The entry point on input without a problem\<close>

lemma clean_empty: "cleanInput [] = []" "cleanInput (js ''!!!'') = js ''!!!''"
  by (simp_all add: clean_defs re_defs)

lemma extract_empty: "extractProblems [] = []" "extractProblems (js ''!!!'') = []"
  by (simp_all add: extract_defs re_defs)

text \<open>
  Claim C1 at its failing inputs: for the empty string and for \<open>!!!\<close> no fragment
  survives the final filter of \<open>extractProblems\<close>, which has no fallback to the whole
  input, and \<open>solve\<close> returns the empty sequence.
\<close>

theorem solve_empty_input: "solve h sv (js '''') = [] \<and> solve h sv (js ''!!!'') = []"
  using clean_empty extract_empty by (simp add: solve_def) (simp add: js_def)

end
